theory Spec2Isabelle
  imports Main
begin

section \<open>Strings\<close>

text \<open>
  A Go string is modelled as a list of bytes (\<open>string\<close>). The library functions of package
  \<open>strings\<close> that the program calls are written out below for ASCII text, which is what the
  scheduler tools and the remote shell print: the white space of \<open>strings.TrimSpace\<close> and
  \<open>strings.Fields\<close> is tab, line feed, vertical tab, form feed, carriage return and space,
  and \<open>strings.ToUpper\<close> maps the letters a to z. Bytes from 0x80 on are left as they are.
\<close>

definition isSpace :: "char \<Rightarrow> bool" where
  "isSpace c = (c = CHR 0x09 \<or> c = CHR 0x0A \<or> c = CHR 0x0B \<or> c = CHR 0x0C
                \<or> c = CHR 0x0D \<or> c = CHR 0x20)"

definition TrimSpace :: "string \<Rightarrow> string" where
  "TrimSpace s = rev (dropWhile isSpace (rev (dropWhile isSpace s)))"

definition toUpperByte :: "char \<Rightarrow> char" where
  "toUpperByte c =
     (let n = (of_char c :: nat) in if 97 \<le> n \<and> n \<le> 122 then char_of (n - 32) else c)"

definition ToUpper :: "string \<Rightarrow> string" where
  "ToUpper s = map toUpperByte s"

section \<open>Job status classification\<close>

text \<open>
  \<^verbatim>\<open>
  func isActiveStatus(status string) bool {
      switch strings.ToUpper(strings.TrimSpace(status)) {
      case "PENDING", "CONFIGURING", "RUNNING", "COMPLETING", "SUSPENDED",
           "RESV_DEL_HOLD", "SPECIAL_EXIT":
          return true
      default:
          return false
      }
  }
  \<close>
\<close>

definition isActiveStatus :: "string \<Rightarrow> bool" where
  "isActiveStatus status =
     (let s = ToUpper (TrimSpace status) in
      if s = ''PENDING'' then True
      else if s = ''CONFIGURING'' then True
      else if s = ''RUNNING'' then True
      else if s = ''COMPLETING'' then True
      else if s = ''SUSPENDED'' then True
      else if s = ''RESV_DEL_HOLD'' then True
      else if s = ''SPECIAL_EXIT'' then True
      else False)"


section \<open>More of package strings\<close>



text \<open>
  \<open>strings.Split(s, "\n")\<close>: the pieces between line feeds; one piece more than there are
  line feeds, so the empty string gives one empty piece.
\<close>

fun splitFrom :: "char \<Rightarrow> string \<Rightarrow> string \<Rightarrow> string list" where
  "splitFrom sep cur [] = [cur]"
| "splitFrom sep cur (c # cs) =
     (if c = sep then cur # splitFrom sep [] cs else splitFrom sep (cur @ [c]) cs)"

definition SplitLines :: "string \<Rightarrow> string list" where
  "SplitLines s = splitFrom (CHR 0x0A) [] s"

text \<open>\<open>strings.Join(xs, sep)\<close>.\<close>

fun Join :: "string list \<Rightarrow> string \<Rightarrow> string" where
  "Join [] sep = []"
| "Join [x] sep = x"
| "Join (x # y # ys) sep = x @ sep @ Join (y # ys) sep"

text \<open>\<open>strings.Trim(s, cutset)\<close> and \<open>strings.TrimRight(s, cutset)\<close> for a cutset of one byte.\<close>

definition TrimByte :: "char \<Rightarrow> string \<Rightarrow> string" where
  "TrimByte b s = rev (dropWhile (\<lambda>c. c = b) (rev (dropWhile (\<lambda>c. c = b) s)))"

definition TrimRightByte :: "char \<Rightarrow> string \<Rightarrow> string" where
  "TrimRightByte b s = rev (dropWhile (\<lambda>c. c = b) (rev s))"

text \<open>\<open>strings.HasPrefix\<close> and \<open>strings.TrimPrefix\<close>.\<close>

definition HasPrefix :: "string \<Rightarrow> string \<Rightarrow> bool" where
  "HasPrefix s p = (take (length p) s = p)"

definition TrimPrefix :: "string \<Rightarrow> string \<Rightarrow> string" where
  "TrimPrefix s p = (if HasPrefix s p then drop (length p) s else s)"

text \<open>\<open>strings.ReplaceAll(s, old, new)\<close> for an \<open>old\<close> of one byte.\<close>

definition ReplaceByte :: "string \<Rightarrow> char \<Rightarrow> string \<Rightarrow> string" where
  "ReplaceByte s b new = concat (map (\<lambda>c. if c = b then new else [c]) s)"

text \<open>The verb \<open>%d\<close> of package fmt: a decimal numeral, with a minus sign below zero.\<close>

definition digitChar :: "nat \<Rightarrow> char" where
  "digitChar d = ''0123456789'' ! d"

function showNat :: "nat \<Rightarrow> string" where
  "showNat n = (if n < 10 then [digitChar n] else showNat (n div 10) @ [digitChar (n mod 10)])"
  by pat_completeness auto
termination
  by (relation "measure id") auto

declare showNat.simps [simp del]

definition showInt :: "int \<Rightarrow> string" where
  "showInt i = (if i < 0 then CHR ''-'' # showNat (nat (- i)) else showNat (nat i))"

section \<open>Time\<close>

text \<open>
  A \<open>time.Time\<close> is an instant; it is modelled as the number of nanoseconds since the Unix
  epoch, and a \<open>time.Duration\<close> as a number of nanoseconds. The zero \<open>Time\<close> of Go is
  January 1 of year 1, 00:00:00 UTC, which is 62135596800 seconds before the epoch.
  \<open>UTC\<close> changes the location a time is printed in, not the instant; \<open>Unix\<close> is the number
  of whole seconds since the epoch, rounded down.
\<close>

type_synonym Time = int
type_synonym Duration = int

definition Second :: Duration where
  "Second = 1000000000"

definition Minute :: Duration where
  "Minute = 60 * Second"

definition zeroTime :: Time where
  "zeroTime = - 62135596800 * 1000000000"

definition IsZero :: "Time \<Rightarrow> bool" where
  "IsZero t = (t = zeroTime)"

definition UTC :: "Time \<Rightarrow> Time" where
  "UTC t = t"

definition Add :: "Time \<Rightarrow> Duration \<Rightarrow> Time" where
  "Add t d = t + d"

definition Unix :: "Time \<Rightarrow> int" where
  "Unix t = t div 1000000000"

text \<open>
  \<^verbatim>\<open>
  const (
      defaultPollInterval   = 30 * time.Second
      sinceStartGracePeriod = 2 * time.Minute
      artifactSettleDelay   = 10 * time.Second
  )
  \<close>
\<close>

definition defaultPollInterval :: Duration where
  "defaultPollInterval = 30 * Second"

definition sinceStartGracePeriod :: Duration where
  "sinceStartGracePeriod = 2 * Minute"

definition artifactSettleDelay :: Duration where
  "artifactSettleDelay = 10 * Second"

section \<open>Package path/filepath on a Unix host\<close>

text \<open>
  \<open>filepath.Base\<close> returns the last element of a path: trailing slashes are removed first,
  the empty path gives a dot and a path of slashes only gives one slash.
\<close>

definition pathBase :: "string \<Rightarrow> string" where
  "pathBase p =
     (if p = [] then ''.''
      else let q = TrimRightByte (CHR ''/'') p in
           if q = [] then ''/''
           else rev (takeWhile (\<lambda>c. c \<noteq> CHR ''/'') (rev q)))"

text \<open>
  \<open>filepath.Clean\<close> reads the elements of a path from left to right: empty elements and
  dots are dropped, a double dot removes the element before it when there is one that is not
  a double dot itself, is dropped at the root and is kept otherwise. The elements kept are
  held in reverse order.
\<close>

fun cleanElems :: "bool \<Rightarrow> string list \<Rightarrow> string list \<Rightarrow> string list" where
  "cleanElems rooted kept [] = rev kept"
| "cleanElems rooted kept (e # es) =
     (if e = [] \<or> e = ''.'' then cleanElems rooted kept es
      else if e = ''..'' then
        (case kept of
           [] \<Rightarrow> if rooted then cleanElems rooted kept es else cleanElems rooted [e] es
         | k # ks \<Rightarrow> if k = ''..'' then cleanElems rooted (e # kept) es
                     else cleanElems rooted ks es)
      else cleanElems rooted (e # kept) es)"

definition pathIsAbs :: "string \<Rightarrow> bool" where
  "pathIsAbs p = HasPrefix p ''/''"

definition pathClean :: "string \<Rightarrow> string" where
  "pathClean p =
     (if p = [] then ''.''
      else let rooted = pathIsAbs p;
               body = Join (cleanElems rooted [] (splitFrom (CHR ''/'') [] p)) ''/'';
               out = (if rooted then CHR ''/'' # body else body)
           in if out = [] then ''.'' else out)"

text \<open>
  \<open>filepath.Join\<close> skips the leading empty elements, joins the rest with slashes and cleans
  the result; with no element left it returns the empty string.
\<close>

fun pathJoin :: "string list \<Rightarrow> string" where
  "pathJoin [] = []"
| "pathJoin (e # es) = (if e = [] then pathJoin es else pathClean (Join (e # es) ''/''))"

section \<open>Data model\<close>

text \<open>
  \<^verbatim>\<open>
  type ArtifactSource struct {
      Path     string   `json:"path"`
      Patterns []string `json:"artifact_patterns"`
  }
  \<close>
  A slice is a list; the nil slice and the empty slice are both the empty list, which is
  all the program tells apart (it only takes \<open>len\<close> and ranges over slices).
\<close>

record ArtifactSource =
  Path :: string
  Patterns :: "string list"

record Experiment =
  ID :: int
  Name :: string
  Remote :: string
  ScriptPath :: string
  Args :: string
  GitCommit :: string
  GitBranch :: string
  JobID :: string
  JobStatus :: string
  LogPath :: string
  CreatedAt :: Time
  CompletedAt :: Time
  ArtifactRemote :: string
  ArtifactDest :: string
  ArtifactSources :: "ArtifactSource list"
  ArtifactPattern :: string
  ArtifactSinceStart :: bool
  ArtifactLastSync :: Time
  ArtifactLastError :: string
  ConfigSnapshot :: string

text \<open>
  Every \<open>error\<close> value the modelled functions build, with the values that its message is
  formatted from. An error of the operating system, of a child process or of the database
  driver is its message.
\<close>

datatype error =
    SbatchFailed string string
  | SbatchUnparsable string
  | SqueueFailed string string
  | SacctFailed string string
  | DbError string
  | EmptySourcePath
  | RemotePathRequired
  | RemotePathNotAbsolute
  | ArtifactDestination string
  | DestinationRequired
  | NoStartTime int
  | RemoteFindFailed string string string string
  | CompilePattern string string
  | ResolveDestination string
  | EnsureDestination string
  | RsyncFailed string

section \<open>The world outside the process\<close>

text \<open>
  The program starts child processes (\<open>ssh\<close>, \<open>rsync\<close>), sleeps, reads the clock, writes
  to its database and creates directories. What it does is recorded as a trace of events;
  what the outside answers is given by an environment. The answer to a child process may
  depend on its command line and on how many processes were started before it, the outcome
  of a database statement on how many statements were executed before it, and the clock on
  the length of the trace. \<open>regexp_compile\<close> is \<open>regexp.Compile\<close>, with the message of its error,
  and \<open>error_text\<close> is the method \<open>Error\<close> of an error value, its formatted message. Output
  printed for the user is not part of the model.
\<close>

record proc_result =
  p_stdout :: string
  p_stderr :: string
  p_err :: "string option"

text \<open>
  \<open>p_err\<close> is the \<open>error\<close> of \<open>cmd.Run\<close> or \<open>cmd.CombinedOutput\<close>: \<open>None\<close> when the process
  ran and exited with status 0. For \<open>CombinedOutput\<close> the two streams share one buffer;
  the model takes the combined text to be \<open>p_stdout\<close> followed by \<open>p_stderr\<close>.
\<close>

definition combinedOutput :: "proc_result \<Rightarrow> string" where
  "combinedOutput r = p_stdout r @ p_stderr r"

datatype db_stmt =
    SetStatus int string
  | SetStatusCompleted int string Time
  | SetArtifactSync int "Time option" string

datatype event =
    Exec "string list" string
  | Sleep Duration
  | DbExec db_stmt
  | MkdirAll string

record db_row =
  job_status :: string
  completed_at :: "Time option"
  artifact_last_sync :: "Time option"
  artifact_last_error :: string

record world =
  trace :: "event list"
  db :: "int \<Rightarrow> db_row option"

record env =
  run_process :: "nat \<Rightarrow> string list \<Rightarrow> proc_result"
  db_failure :: "nat \<Rightarrow> string option"
  time_now :: "nat \<Rightarrow> Time"
  user_home_dir :: "string + string"
  getwd :: "string + string"
  mkdir_all :: "string \<Rightarrow> string option"
  regexp_compile :: "string \<Rightarrow> string + (string \<Rightarrow> bool)"
  error_text :: "error \<Rightarrow> string"

fun isExec :: "event \<Rightarrow> bool" where
  "isExec (Exec argv input) = True"
| "isExec e = False"

fun isDbExec :: "event \<Rightarrow> bool" where
  "isDbExec (DbExec s) = True"
| "isDbExec e = False"

definition processCount :: "world \<Rightarrow> nat" where
  "processCount w = length (filter isExec (trace w))"

definition statementCount :: "world \<Rightarrow> nat" where
  "statementCount w = length (filter isDbExec (trace w))"

text \<open>Starting a child process, with what is written to its standard input.\<close>

definition runCommand :: "env \<Rightarrow> string list \<Rightarrow> string \<Rightarrow> world \<Rightarrow> proc_result \<times> world" where
  "runCommand E argv input w =
     (run_process E (processCount w) argv, w\<lparr>trace := trace w @ [Exec argv input]\<rparr>)"

definition sleep :: "Duration \<Rightarrow> world \<Rightarrow> world" where
  "sleep d w = w\<lparr>trace := trace w @ [Sleep d]\<rparr>"

definition now :: "env \<Rightarrow> world \<Rightarrow> Time" where
  "now E w = time_now E (length (trace w))"

text \<open>
  The statements are SQL \<open>UPDATE ... WHERE id = ?\<close>: a row that does not exist is not an
  error, and a statement that fails changes nothing.
\<close>

fun applyStmt :: "db_stmt \<Rightarrow> (int \<Rightarrow> db_row option) \<Rightarrow> (int \<Rightarrow> db_row option)" where
  "applyStmt (SetStatus i s) d =
     (case d i of None \<Rightarrow> d | Some r \<Rightarrow> d(i := Some (r\<lparr>job_status := s\<rparr>)))"
| "applyStmt (SetStatusCompleted i s t) d =
     (case d i of None \<Rightarrow> d
      | Some r \<Rightarrow> d(i := Some (r\<lparr>job_status := s, completed_at := Some t\<rparr>)))"
| "applyStmt (SetArtifactSync i t m) d =
     (case d i of None \<Rightarrow> d
      | Some r \<Rightarrow> d(i := Some (r\<lparr>artifact_last_sync := t, artifact_last_error := m\<rparr>)))"

definition dbExec :: "env \<Rightarrow> db_stmt \<Rightarrow> world \<Rightarrow> error option \<times> world" where
  "dbExec E st w =
     (case db_failure E (statementCount w) of
        Some m \<Rightarrow> (Some (DbError m), w\<lparr>trace := trace w @ [DbExec st]\<rparr>)
      | None \<Rightarrow> (None, w\<lparr>trace := trace w @ [DbExec st], db := applyStmt st (db w)\<rparr>))"

section \<open>Job submission\<close>




section \<open>Two-tier status lookup\<close>

text \<open>
  \<^verbatim>\<open>
  func runSqueue(remote, jobID string) (string, error) {
      cmd := exec.Command("ssh", remote, "squeue", "-h", "-j", jobID, "-o", "%T")
      out, err := cmd.CombinedOutput()
      if err != nil {
          return "", fmt.Errorf("squeue: %v (output: %s)", err, strings.TrimSpace(string(out)))
      }
      text := strings.TrimSpace(string(out))
      if text == "" {
          return "", nil
      }
      lines := strings.Split(text, "\n")
      return strings.TrimSpace(lines[0]), nil
  }
  \<close>
\<close>

definition squeueArgv :: "string \<Rightarrow> string \<Rightarrow> string list" where
  "squeueArgv remote jobID = [''ssh'', remote, ''squeue'', ''-h'', ''-j'', jobID, ''-o'', ''%T'']"

definition runSqueue :: "env \<Rightarrow> string \<Rightarrow> string \<Rightarrow> world \<Rightarrow> (error + string) \<times> world" where
  "runSqueue E remote jobID w =
     (case runCommand E (squeueArgv remote jobID) [] w of
        (r, w1) \<Rightarrow>
          (case p_err r of
             Some e \<Rightarrow> (Inl (SqueueFailed e (TrimSpace (combinedOutput r))), w1)
           | None \<Rightarrow>
               let text = TrimSpace (combinedOutput r) in
               if text = [] then (Inr [], w1)
               else (case SplitLines text of
                       [] \<Rightarrow> (Inr [], w1)
                     | l # ls \<Rightarrow> (Inr (TrimSpace l), w1))))"

text \<open>
  \<^verbatim>\<open>
  func runSacct(remote, jobID string) (string, error) {
      cmd := exec.Command("ssh", remote, "sacct", "-n", "-X", "-j", jobID, "-o", "State")
      out, err := cmd.CombinedOutput()
      if err != nil {
          return "", fmt.Errorf("sacct: %v (output: %s)", err, strings.TrimSpace(string(out)))
      }
      for _, line := range strings.Split(strings.TrimSpace(string(out)), "\n") {
          line = strings.TrimSpace(line)
          if line == "" {
              continue
          }
          state := line
          if idx := strings.Index(state, " "); idx >= 0 {
              state = state[:idx]
          }
          state = strings.Trim(state, "+")
          return state, nil
      }
      return "", nil
  }
  \<close>
  \<open>sacctState\<close> is the body of the loop for a line that is not blank, \<open>sacctLines\<close> the loop.
\<close>

definition sacctArgv :: "string \<Rightarrow> string \<Rightarrow> string list" where
  "sacctArgv remote jobID =
     [''ssh'', remote, ''sacct'', ''-n'', ''-X'', ''-j'', jobID, ''-o'', ''State'']"

definition sacctState :: "string \<Rightarrow> string" where
  "sacctState line = TrimByte (CHR ''+'') (takeWhile (\<lambda>c. c \<noteq> CHR '' '') line)"

fun sacctLines :: "string list \<Rightarrow> string" where
  "sacctLines [] = []"
| "sacctLines (l # ls) =
     (let line = TrimSpace l in if line = [] then sacctLines ls else sacctState line)"

definition runSacct :: "env \<Rightarrow> string \<Rightarrow> string \<Rightarrow> world \<Rightarrow> (error + string) \<times> world" where
  "runSacct E remote jobID w =
     (case runCommand E (sacctArgv remote jobID) [] w of
        (r, w1) \<Rightarrow>
          (case p_err r of
             Some e \<Rightarrow> (Inl (SacctFailed e (TrimSpace (combinedOutput r))), w1)
           | None \<Rightarrow> (Inr (sacctLines (SplitLines (TrimSpace (combinedOutput r)))), w1)))"

text \<open>
  \<^verbatim>\<open>
  func queryJobStatus(remote, jobID string) (string, error) {
      if jobID == "" {
          return "UNKNOWN", nil
      }
      status, err := runSqueue(remote, jobID)
      if err != nil {
          return "", err
      }
      if status != "" {
          return status, nil
      }
      if status, err = runSacct(remote, jobID); err == nil {
          if status != "" {
              return status, nil
          }
      } else {
          // sacct is optional; treat missing sacct as "unknown" once the job leaves squeue
          return "UNKNOWN", nil
      }
      return "UNKNOWN", nil
  }
  \<close>
\<close>

definition queryJobStatus :: "env \<Rightarrow> string \<Rightarrow> string \<Rightarrow> world \<Rightarrow> (error + string) \<times> world" where
  "queryJobStatus E remote jobID w =
     (if jobID = [] then (Inr ''UNKNOWN'', w)
      else
        (case runSqueue E remote jobID w of
           (Inl err, w1) \<Rightarrow> (Inl err, w1)
         | (Inr status, w1) \<Rightarrow>
             if status \<noteq> [] then (Inr status, w1)
             else
               (case runSacct E remote jobID w1 of
                  (Inr status2, w2) \<Rightarrow>
                    if status2 \<noteq> [] then (Inr status2, w2) else (Inr ''UNKNOWN'', w2)
                | (Inl err2, w2) \<Rightarrow> (Inr ''UNKNOWN'', w2))))"


section \<open>Persisting the status\<close>

text \<open>
  \<^verbatim>\<open>
  func updateExperimentStatus(db *sql.DB, id int64, status string, completedAt *time.Time) error {
      if completedAt != nil {
          _, err := db.Exec(`UPDATE experiments SET job_status = ?, completed_at = ? WHERE id = ?`,
              status, completedAt.Format(time.RFC3339), id)
          return err
      }
      _, err := db.Exec(`UPDATE experiments SET job_status = ? WHERE id = ?`, status, id)
      return err
  }
  \<close>
  The database keeps the completion time as text; the model keeps the time.
\<close>

definition updateExperimentStatus ::
  "env \<Rightarrow> int \<Rightarrow> string \<Rightarrow> Time option \<Rightarrow> world \<Rightarrow> error option \<times> world" where
  "updateExperimentStatus E i status completedAt w =
     (case completedAt of
        Some t \<Rightarrow> dbExec E (SetStatusCompleted i status t) w
      | None \<Rightarrow> dbExec E (SetStatus i status) w)"

definition recordArtifactSync ::
  "env \<Rightarrow> int \<Rightarrow> Time option \<Rightarrow> string \<Rightarrow> world \<Rightarrow> error option \<times> world" where
  "recordArtifactSync E i syncedAt errMsg w = dbExec E (SetArtifactSync i syncedAt errMsg) w"

section \<open>Artifact sources of an experiment\<close>

text \<open>
  \<^verbatim>\<open>
  func ensurePatterns(pats []string) []string {
      if len(pats) == 0 {
          return nil
      }
      var out []string
      for _, p := range pats {
          p = strings.TrimSpace(p)
          if p != "" {
              out = append(out, p)
          }
      }
      return out
  }
  \<close>
  The loops that append to a slice keep the slice built so far.
\<close>

fun trimmedNonEmpty :: "string list \<Rightarrow> string list \<Rightarrow> string list" where
  "trimmedNonEmpty out [] = out"
| "trimmedNonEmpty out (p # ps) =
     (let q = TrimSpace p in
      if q \<noteq> [] then trimmedNonEmpty (out @ [q]) ps else trimmedNonEmpty out ps)"

definition ensurePatterns :: "string list \<Rightarrow> string list" where
  "ensurePatterns pats = (if length pats = 0 then [] else trimmedNonEmpty [] pats)"

text \<open>
  \<^verbatim>\<open>
  func combinePatterns(patterns []string) string {
      var cleaned []string
      for _, p := range patterns {
          p = strings.TrimSpace(p)
          if p != "" {
              cleaned = append(cleaned, p)
          }
      }
      return strings.Join(cleaned, "\n")
  }

  func splitPatterns(s string) []string {
      s = strings.TrimSpace(s)
      if s == "" {
          return nil
      }
      lines := strings.Split(s, "\n")
      var out []string
      for _, line := range lines {
          line = strings.TrimSpace(line)
          if line != "" {
              out = append(out, line)
          }
      }
      return out
  }
  \<close>
\<close>

definition combinePatterns :: "string list \<Rightarrow> string" where
  "combinePatterns patterns = Join (trimmedNonEmpty [] patterns) [CHR 0x0A]"

definition splitPatterns :: "string \<Rightarrow> string list" where
  "splitPatterns s0 =
     (let s = TrimSpace s0 in
      if s = [] then [] else trimmedNonEmpty [] (SplitLines s))"

text \<open>
  \<^verbatim>\<open>
  func copyArtifactSources(src []ArtifactSource) []ArtifactSource {
      if len(src) == 0 {
          return nil
      }
      dst := make([]ArtifactSource, len(src))
      for i, s := range src {
          dst[i] = ArtifactSource{
              Path:     s.Path,
              Patterns: append([]string(nil), s.Patterns...),
          }
      }
      return dst
  }

  func (exp *Experiment) EffectiveArtifactSources() []ArtifactSource {
      if exp == nil {
          return nil
      }
      if len(exp.ArtifactSources) > 0 {
          return copyArtifactSources(exp.ArtifactSources)
      }
      if exp.ArtifactRemote == "" {
          return nil
      }
      return []ArtifactSource{{
          Path:     exp.ArtifactRemote,
          Patterns: splitPatterns(exp.ArtifactPattern),
      }}
  }
  \<close>
  The receiver is a pointer, which may be nil: \<open>None\<close>.
\<close>

definition copyArtifactSources :: "ArtifactSource list \<Rightarrow> ArtifactSource list" where
  "copyArtifactSources src =
     (if length src = 0 then []
      else map (\<lambda>s. \<lparr>Path = Path s, Patterns = [] @ Patterns s\<rparr>) src)"

definition EffectiveArtifactSources :: "Experiment option \<Rightarrow> ArtifactSource list" where
  "EffectiveArtifactSources e =
     (case e of
        None \<Rightarrow> []
      | Some exp \<Rightarrow>
          if length (ArtifactSources exp) > 0 then copyArtifactSources (ArtifactSources exp)
          else if ArtifactRemote exp = [] then []
          else [\<lparr>Path = ArtifactRemote exp, Patterns = splitPatterns (ArtifactPattern exp)\<rparr>])"



section \<open>Listing the files of a remote tree\<close>

text \<open>
  \<^verbatim>\<open>
  func shellQuote(s string) string {
      if s == "" {
          return "''"
      }
      return "'" + strings.ReplaceAll(s, `'`, `'"'"'`) + "'"
  }
  \<close>
  \<open>CHR 0x27\<close> is the apostrophe and \<open>CHR 0x22\<close> the double quote.
\<close>

definition shellQuote :: "string \<Rightarrow> string" where
  "shellQuote s =
     (if s = [] then [CHR 0x27, CHR 0x27]
      else [CHR 0x27]
           @ ReplaceByte s (CHR 0x27) [CHR 0x27, CHR 0x22, CHR 0x27, CHR 0x22, CHR 0x27]
           @ [CHR 0x27])"

text \<open>
  \<^verbatim>\<open>
  func listRemoteFiles(remote, root string, since time.Time) ([]string, string, error) {
      ...
      var cmdBuilder strings.Builder
      fmt.Fprintf(&cmdBuilder, "echo Remote initial PWD: \"$PWD\" >&2 && cd %s && echo Remote PWD after cd: \"$PWD\" >&2 && find . -type f", shellQuote(root))
      if !since.IsZero() {
          cutoff := since.UTC().Add(-sinceStartGracePeriod)
          epoch := cutoff.Unix()
          fmt.Fprintf(&cmdBuilder, " -newermt %s", shellQuote(fmt.Sprintf("@%d", epoch)))
      }
      cmdBuilder.WriteString(" -print")

      cmd := exec.Command("ssh", remote, "bash", "-lc", cmdBuilder.String())
      var stdoutBuf, stderrBuf bytes.Buffer
      cmd.Stdout = &stdoutBuf
      cmd.Stderr = &stderrBuf
      err := cmd.Run()
      ...
      if err != nil {
          return nil, cmdBuilder.String(), fmt.Errorf("remote find failed: ...",
              err, cmdBuilder.String(), strings.TrimSpace(stdoutBuf.String()), strings.TrimSpace(stderrText))
      }
      trimmed := strings.TrimSpace(stdoutBuf.String())
      if trimmed == "" {
          return nil, cmdBuilder.String(), nil
      }
      lines := strings.Split(trimmed, "\n")
      var files []string
      for _, line := range lines {
          line = strings.TrimSpace(line)
          if line == "" || line == "." {
              continue
          }
          line = strings.TrimPrefix(line, "./")
          files = append(files, line)
      }
      return files, cmdBuilder.String(), nil
  }
  \<close>
  The command text is returned for a message only; the model returns the files or the error.
\<close>

definition findHead :: "string \<Rightarrow> string" where
  "findHead root =
     ''echo Remote initial PWD: '' @ [CHR 0x22] @ ''$PWD'' @ [CHR 0x22] @ '' >&2 && cd ''
     @ shellQuote root
     @ '' && echo Remote PWD after cd: '' @ [CHR 0x22] @ ''$PWD'' @ [CHR 0x22]
     @ '' >&2 && find . -type f''"

definition findCommand :: "string \<Rightarrow> Time \<Rightarrow> string" where
  "findCommand root since =
     findHead root
     @ (if \<not> IsZero since then
          (let cutoff = Add (UTC since) (- sinceStartGracePeriod);
               epoch = Unix cutoff
           in '' -newermt '' @ shellQuote (''@'' @ showInt epoch))
        else [])
     @ '' -print''"

definition listArgv :: "string \<Rightarrow> string \<Rightarrow> Time \<Rightarrow> string list" where
  "listArgv remote root since = [''ssh'', remote, ''bash'', ''-lc'', findCommand root since]"

fun listingLines :: "string list \<Rightarrow> string list \<Rightarrow> string list" where
  "listingLines files [] = files"
| "listingLines files (l # ls) =
     (let line = TrimSpace l in
      if line = [] \<or> line = ''.'' then listingLines files ls
      else listingLines (files @ [TrimPrefix line ''./'']) ls)"

text \<open>What \<open>listRemoteFiles\<close> makes of the result of the remote command.\<close>

definition listingOf :: "string \<Rightarrow> proc_result \<Rightarrow> error + string list" where
  "listingOf cmd r =
     (case p_err r of
        Some e \<Rightarrow> Inl (RemoteFindFailed e cmd (TrimSpace (p_stdout r)) (TrimSpace (p_stderr r)))
      | None \<Rightarrow>
          let trimmed = TrimSpace (p_stdout r) in
          if trimmed = [] then Inr [] else Inr (listingLines [] (SplitLines trimmed)))"

definition listRemoteFiles ::
  "env \<Rightarrow> string \<Rightarrow> string \<Rightarrow> Time \<Rightarrow> world \<Rightarrow> (error + string list) \<times> world" where
  "listRemoteFiles E remote root since w =
     (case runCommand E (listArgv remote root since) [] w of
        (r, w1) \<Rightarrow> (listingOf (findCommand root since) r, w1))"

section \<open>Pattern filter\<close>

text \<open>
  A compiled expression \<open>*regexp.Regexp\<close> is used through \<open>MatchString\<close> only: it is the
  set of strings it matches, or \<open>None\<close> for the nil pointer.
  \<^verbatim>\<open>
  func patternMatches(res []*regexp.Regexp, remoteRoot, rel string) bool {
      if len(res) == 0 {
          return true
      }
      full := rel
      if remoteRoot != "" {
          full = filepath.Join(remoteRoot, rel)
      }
      base := filepath.Base(rel)
      for _, re := range res {
          if re == nil {
              continue
          }
          if re.MatchString(rel) || re.MatchString(base) || re.MatchString(full) {
              return true
          }
      }
      return false
  }
  \<close>
\<close>

type_synonym regexp = "string \<Rightarrow> bool"

fun anyMatches :: "regexp option list \<Rightarrow> string \<Rightarrow> string \<Rightarrow> string \<Rightarrow> bool" where
  "anyMatches [] rel base full = False"
| "anyMatches (None # res) rel base full = anyMatches res rel base full"
| "anyMatches (Some re # res) rel base full =
     (if re rel \<or> re base \<or> re full then True else anyMatches res rel base full)"

definition fullPath :: "string \<Rightarrow> string \<Rightarrow> string" where
  "fullPath remoteRoot rel = (if remoteRoot \<noteq> [] then pathJoin [remoteRoot, rel] else rel)"

definition patternMatches :: "regexp option list \<Rightarrow> string \<Rightarrow> string \<Rightarrow> bool" where
  "patternMatches res remoteRoot rel =
     (if length res = 0 then True
      else anyMatches res rel (pathBase rel) (fullPath remoteRoot rel))"

section \<open>Local paths and the transfer\<close>

text \<open>\<open>filepath.Abs\<close> joins a relative path onto the working directory.\<close>

definition pathAbs :: "env \<Rightarrow> string \<Rightarrow> string + string" where
  "pathAbs E p =
     (if pathIsAbs p then Inr (pathClean p)
      else (case getwd E of Inl e \<Rightarrow> Inl e | Inr wd \<Rightarrow> Inr (pathJoin [wd, p])))"

text \<open>
  \<^verbatim>\<open>
  func expandLocalPath(p string) (string, error) {
      if p == "" {
          return "", nil
      }
      if strings.HasPrefix(p, "~") {
          home, err := os.UserHomeDir()
          if err != nil {
              return "", err
          }
          rest := strings.TrimPrefix(p, "~")
          if strings.HasPrefix(rest, "/") {
              rest = rest[1:]
          }
          if rest == "" {
              p = home
          } else {
              p = filepath.Join(home, rest)
          }
      }
      return filepath.Abs(p)
  }
  \<close>
\<close>

definition expandLocalPath :: "env \<Rightarrow> string \<Rightarrow> string + string" where
  "expandLocalPath E p =
     (if p = [] then Inr []
      else if HasPrefix p ''~'' then
        (case user_home_dir E of
           Inl e \<Rightarrow> Inl e
         | Inr home \<Rightarrow>
             let rest0 = TrimPrefix p ''~'';
                 rest = (if HasPrefix rest0 ''/'' then drop 1 rest0 else rest0)
             in pathAbs E (if rest = [] then home else pathJoin [home, rest]))
      else pathAbs E p)"

text \<open>
  \<^verbatim>\<open>
  func rsyncFiles(remote, root string, files []string, dest string) error {
      if len(files) == 0 {
          return nil
      }
      absDest, err := filepath.Abs(dest)
      if err != nil {
          return fmt.Errorf("resolve destination: %w", err)
      }
      if err := os.MkdirAll(absDest, 0o755); err != nil {
          return fmt.Errorf("ensure destination: %w", err)
      }
      sourceRoot := strings.TrimRight(root, "/")
      if sourceRoot == "" {
          sourceRoot = "/"
      }
      src := fmt.Sprintf("%s:%s/", remote, sourceRoot)
      args := []string{"-av", "--files-from=-", src, absDest}
      cmd := exec.Command("rsync", args...)
      cmd.Stdin = strings.NewReader(strings.Join(files, "\n") + "\n")
      ...
      if err := cmd.Run(); err != nil {
          return fmt.Errorf("rsync failed: %w", err)
      }
      return nil
  }
  \<close>
\<close>

definition rsyncArgv :: "string \<Rightarrow> string \<Rightarrow> string \<Rightarrow> string list" where
  "rsyncArgv remote root absDest =
     (let sourceRoot0 = TrimRightByte (CHR ''/'') root;
          sourceRoot = (if sourceRoot0 = [] then ''/'' else sourceRoot0);
          src = remote @ '':'' @ sourceRoot @ ''/''
      in [''rsync'', ''-av'', ''--files-from=-'', src, absDest])"

definition rsyncFiles ::
  "env \<Rightarrow> string \<Rightarrow> string \<Rightarrow> string list \<Rightarrow> string \<Rightarrow> world \<Rightarrow> error option \<times> world" where
  "rsyncFiles E remote root files dest w =
     (if length files = 0 then (None, w)
      else
        (case pathAbs E dest of
           Inl e \<Rightarrow> (Some (ResolveDestination e), w)
         | Inr absDest \<Rightarrow>
             let w1 = w\<lparr>trace := trace w @ [MkdirAll absDest]\<rparr> in
             (case mkdir_all E absDest of
                Some e \<Rightarrow> (Some (EnsureDestination e), w1)
              | None \<Rightarrow>
                  (case runCommand E (rsyncArgv remote root absDest)
                          (Join files [CHR 0x0A] @ [CHR 0x0A]) w1 of
                     (r, w2) \<Rightarrow>
                       (case p_err r of
                          Some e \<Rightarrow> (Some (RsyncFailed e), w2)
                        | None \<Rightarrow> (None, w2))))))"

section \<open>Artifact discovery and fetch\<close>

text \<open>
  \<^verbatim>\<open>
  for _, attempt := range attempts {
      for retry := 0; retry < 6; retry++ {
          if retry > 0 {
              time.Sleep(3 * time.Second)
          }
          ...
          files, cmd, err = listRemoteFiles(exp.Remote, remotePath, attempt.ts)
          ...
          if err != nil {
              return err
          }
          if len(files) > 0 {
              goto FILES_FOUND
          }
      }
  }
  FILES_FOUND:
  \<close>
  The inner loop runs over the values 0 to 5 of \<open>retry\<close>, the outer loop over the time stamps
  of the strategies. \<open>Found\<close> is the jump to the label, \<open>Exhausted\<close> the end of a loop with
  \<open>files\<close> empty, \<open>Aborted\<close> the return of the error.
\<close>

datatype discovery = Found "string list" | Exhausted | Aborted error

fun retryLoop ::
  "env \<Rightarrow> string \<Rightarrow> string \<Rightarrow> Time \<Rightarrow> nat list \<Rightarrow> world \<Rightarrow> discovery \<times> world" where
  "retryLoop E remote root ts [] w = (Exhausted, w)"
| "retryLoop E remote root ts (retry # rest) w =
     (let w0 = (if retry > 0 then sleep (3 * Second) w else w) in
      case listRemoteFiles E remote root ts w0 of
        (Inl err, w1) \<Rightarrow> (Aborted err, w1)
      | (Inr files, w1) \<Rightarrow>
          if length files > 0 then (Found files, w1)
          else retryLoop E remote root ts rest w1)"

fun attemptLoop ::
  "env \<Rightarrow> string \<Rightarrow> string \<Rightarrow> Time list \<Rightarrow> world \<Rightarrow> discovery \<times> world" where
  "attemptLoop E remote root [] w = (Exhausted, w)"
| "attemptLoop E remote root (ts # rest) w =
     (case retryLoop E remote root ts [0..<6] w of
        (Exhausted, w1) \<Rightarrow> attemptLoop E remote root rest w1
      | (d, w1) \<Rightarrow> (d, w1))"

text \<open>
  \<^verbatim>\<open>
  attempts := []struct{ label string; ts time.Time }{
      {"without time filter", time.Time{}},
  }
  if sinceStart {
      attempts = append([]struct{...}{{"since-start window", since}}, attempts...)
  }
  \<close>
\<close>

definition attemptsFor :: "bool \<Rightarrow> Time \<Rightarrow> Time list" where
  "attemptsFor sinceStart since = (if sinceStart then [since] @ [zeroTime] else [zeroTime])"

text \<open>
  \<^verbatim>\<open>
  var compiled []*regexp.Regexp
  for _, pat := range patterns {
      pat = strings.TrimSpace(pat)
      if pat == "" {
          continue
      }
      re, err := regexp.Compile(pat)
      if err != nil {
          return fmt.Errorf("compile pattern %q: %w", pat, err)
      }
      compiled = append(compiled, re)
  }
  \<close>
\<close>

fun compilePatterns ::
  "env \<Rightarrow> regexp option list \<Rightarrow> string list \<Rightarrow> error + regexp option list" where
  "compilePatterns E compiled [] = Inr compiled"
| "compilePatterns E compiled (p # ps) =
     (let pat = TrimSpace p in
      if pat = [] then compilePatterns E compiled ps
      else (case regexp_compile E pat of
              Inl err \<Rightarrow> Inl (CompilePattern pat err)
            | Inr re \<Rightarrow> compilePatterns E (compiled @ [Some re]) ps))"

text \<open>
  \<^verbatim>\<open>
  func fetchArtifacts(exp *Experiment, remotePath, destDir string, patterns []string,
                      sinceStart bool, dryRun bool) error {
      if remotePath == "" {
          return fmt.Errorf("remote-path is required")
      }
      if !strings.HasPrefix(remotePath, "/") {
          return fmt.Errorf("remote-path must be absolute so rsync can address the files precisely")
      }
      absDest, err := expandLocalPath(destDir)
      if err != nil {
          return fmt.Errorf("artifact destination: %w", err)
      }
      if absDest == "" {
          return fmt.Errorf("destination directory is required")
      }
      var since time.Time
      if sinceStart {
          if exp.CreatedAt.IsZero() {
              return fmt.Errorf("experiment %d does not have a recorded start time, ...", exp.ID)
          }
          since = exp.CreatedAt
      }
      ... the two loops above ...
  FILES_FOUND:
      if len(files) == 0 {
          return nil
      }
      ... the patterns are compiled ...
      var filtered []string
      for _, rel := range files {
          if !patternMatches(compiled, remotePath, rel) {
              continue
          }
          filtered = append(filtered, rel)
      }
      if len(filtered) == 0 {
          return nil
      }
      if dryRun {
          ... the paths are printed ...
          return nil
      }
      if err := rsyncFiles(exp.Remote, remotePath, filtered, absDest); err != nil {
          return err
      }
      return nil
  }
  \<close>
  \<open>discoverFiles\<close> is the part between the checks of the parameters and the label: it gives
  the value of \<open>files\<close> at the label, or the error returned from inside the loops.
\<close>

definition discoverFiles ::
  "env \<Rightarrow> string \<Rightarrow> string \<Rightarrow> bool \<Rightarrow> Time \<Rightarrow> world \<Rightarrow> (error + string list) \<times> world" where
  "discoverFiles E remote remotePath sinceStart since w =
     (case attemptLoop E remote remotePath (attemptsFor sinceStart since) w of
        (Found files, w1) \<Rightarrow> (Inr files, w1)
      | (Exhausted, w1) \<Rightarrow> (Inr [], w1)
      | (Aborted err, w1) \<Rightarrow> (Inl err, w1))"

definition fetchArtifacts ::
  "env \<Rightarrow> Experiment \<Rightarrow> string \<Rightarrow> string \<Rightarrow> string list \<Rightarrow> bool \<Rightarrow> bool \<Rightarrow> world
    \<Rightarrow> error option \<times> world" where
  "fetchArtifacts E exp remotePath destDir patterns sinceStart dryRun w =
     (if remotePath = [] then (Some RemotePathRequired, w)
      else if \<not> HasPrefix remotePath ''/'' then (Some RemotePathNotAbsolute, w)
      else
        (case expandLocalPath E destDir of
           Inl err \<Rightarrow> (Some (ArtifactDestination err), w)
         | Inr absDest \<Rightarrow>
             if absDest = [] then (Some DestinationRequired, w)
             else if sinceStart \<and> IsZero (CreatedAt exp) then (Some (NoStartTime (ID exp)), w)
             else
               (let since = (if sinceStart then CreatedAt exp else zeroTime) in
                case discoverFiles E (Remote exp) remotePath sinceStart since w of
                  (Inl err, w1) \<Rightarrow> (Some err, w1)
                | (Inr files, w1) \<Rightarrow>
                    if length files = 0 then (None, w1)
                    else
                      (case compilePatterns E [] patterns of
                         Inl err \<Rightarrow> (Some err, w1)
                       | Inr compiled \<Rightarrow>
                           let filtered = filter (patternMatches compiled remotePath) files in
                           if length filtered = 0 then (None, w1)
                           else if dryRun then (None, w1)
                           else rsyncFiles E (Remote exp) remotePath filtered absDest w1))))"

text \<open>
  \<^verbatim>\<open>
  func fetchArtifactSources(exp *Experiment, sources []ArtifactSource, destDir string,
                            sinceStart bool, dryRun bool) error {
      if len(sources) == 0 {
          return nil
      }
      for _, src := range sources {
          if src.Path == "" {
              return fmt.Errorf("artifact source has empty path")
          }
          if err := fetchArtifacts(exp, src.Path, destDir, ensurePatterns(src.Patterns),
                                   sinceStart, dryRun); err != nil {
              return err
          }
      }
      return nil
  }
  \<close>
\<close>

fun fetchArtifactSources ::
  "env \<Rightarrow> Experiment \<Rightarrow> ArtifactSource list \<Rightarrow> string \<Rightarrow> bool \<Rightarrow> bool \<Rightarrow> world
    \<Rightarrow> error option \<times> world" where
  "fetchArtifactSources E exp [] destDir sinceStart dryRun w = (None, w)"
| "fetchArtifactSources E exp (src # rest) destDir sinceStart dryRun w =
     (if Path src = [] then (Some EmptySourcePath, w)
      else
        (case fetchArtifacts E exp (Path src) destDir (ensurePatterns (Patterns src))
                sinceStart dryRun w of
           (Some err, w1) \<Rightarrow> (Some err, w1)
         | (None, w1) \<Rightarrow> fetchArtifactSources E exp rest destDir sinceStart dryRun w1))"

section \<open>The status-polling loop\<close>

text \<open>
  \<^verbatim>\<open>
  func monitorExperiment(db *sql.DB, exp *Experiment, interval time.Duration) error {
      for {
          status, err := queryJobStatus(exp.Remote, exp.JobID)
          if err != nil {
              fmt.Printf("Warning: unable to query job status: %v\n", err)
              time.Sleep(interval)
              continue
          }
          exp.JobStatus = status
          if err := updateExperimentStatus(db, exp.ID, status, nil); err != nil {
              return err
          }
          ...
          if !isActiveStatus(status) {
              completed := time.Now().UTC()
              exp.CompletedAt = completed
              if err := updateExperimentStatus(db, exp.ID, status, &completed); err != nil {
                  return err
              }
              break
          }
          time.Sleep(interval)
      }

      sources := exp.EffectiveArtifactSources()
      if len(sources) > 0 && exp.ArtifactDest != "" {
          time.Sleep(artifactSettleDelay)
          if err := fetchArtifactSources(exp, sources, exp.ArtifactDest, exp.ArtifactSinceStart, false); err != nil {
              if err := recordArtifactSync(db, exp.ID, nil, err.Error()); err != nil {
                  return err
              }
              return err
          }
          now := time.Now().UTC()
          exp.ArtifactLastSync = now
          if err := recordArtifactSync(db, exp.ID, &now, ""); err != nil {
              return err
          }
      } else {
          ...
      }
      return nil
  }
  \<close>
  One pass through the body of the loop ends in \<open>continue\<close> or at the end of the body
  (\<open>Continue\<close>), in \<open>break\<close> (\<open>Break\<close>) or in a \<open>return\<close> of an error (\<open>Return\<close>). The
  state is the record \<open>exp\<close> points to, with the world.
\<close>

datatype 'a step = Continue 'a | Break 'a | Return error 'a

definition pollIteration ::
  "env \<Rightarrow> Duration \<Rightarrow> Experiment \<times> world \<Rightarrow> (Experiment \<times> world) step" where
  "pollIteration E interval s =
     (case s of (exp, w) \<Rightarrow>
        (case queryJobStatus E (Remote exp) (JobID exp) w of
           (Inl err, w1) \<Rightarrow> Continue (exp, sleep interval w1)
         | (Inr status, w1) \<Rightarrow>
             let exp1 = exp\<lparr>JobStatus := status\<rparr> in
             (case updateExperimentStatus E (ID exp1) status None w1 of
                (Some err, w2) \<Rightarrow> Return err (exp1, w2)
              | (None, w2) \<Rightarrow>
                  if \<not> isActiveStatus status then
                    (let completed = UTC (now E w2);
                         exp2 = exp1\<lparr>CompletedAt := completed\<rparr>
                     in case updateExperimentStatus E (ID exp2) status (Some completed) w2 of
                          (Some err, w3) \<Rightarrow> Return err (exp2, w3)
                        | (None, w3) \<Rightarrow> Break (exp2, w3))
                  else Continue (exp1, sleep interval w2))))"

text \<open>
  The loop has no bound. \<open>pollLoop n\<close> runs at most \<open>n\<close> passes: \<open>Polling\<close> is the loop
  still running after them, \<open>Left\<close> the loop left by \<open>break\<close>, \<open>Failed\<close> the function left
  by a \<open>return\<close> inside the loop.
\<close>

datatype loop_end = Polling | Left | Failed error

fun pollLoop ::
  "nat \<Rightarrow> env \<Rightarrow> Duration \<Rightarrow> Experiment \<times> world \<Rightarrow> loop_end \<times> Experiment \<times> world" where
  "pollLoop 0 E interval s = (Polling, s)"
| "pollLoop (Suc n) E interval s =
     (case pollIteration E interval s of
        Continue s1 \<Rightarrow> pollLoop n E interval s1
      | Break s1 \<Rightarrow> (Left, s1)
      | Return err s1 \<Rightarrow> (Failed err, s1))"

text \<open>What follows the loop: the artifacts are fetched when sources and a destination are set.\<close>

definition fetchAfterCompletion ::
  "env \<Rightarrow> Experiment \<times> world \<Rightarrow> error option \<times> Experiment \<times> world" where
  "fetchAfterCompletion E s =
     (case s of (exp, w) \<Rightarrow>
        let sources = EffectiveArtifactSources (Some exp) in
        if length sources > 0 \<and> ArtifactDest exp \<noteq> [] then
          (let w0 = sleep artifactSettleDelay w in
           case fetchArtifactSources E exp sources (ArtifactDest exp) (ArtifactSinceStart exp)
                  False w0 of
             (Some err, w1) \<Rightarrow>
               (case recordArtifactSync E (ID exp) None (error_text E err) w1 of
                  (Some err2, w2) \<Rightarrow> (Some err2, exp, w2)
                | (None, w2) \<Rightarrow> (Some err, exp, w2))
           | (None, w1) \<Rightarrow>
               let t = UTC (now E w1); exp1 = exp\<lparr>ArtifactLastSync := t\<rparr> in
               (case recordArtifactSync E (ID exp1) (Some t) [] w1 of
                  (Some err2, w2) \<Rightarrow> (Some err2, exp1, w2)
                | (None, w2) \<Rightarrow> (None, exp1, w2)))
        else (None, exp, w))"

text \<open>
  \<open>monitorExperiment n\<close> is the function with at most \<open>n\<close> passes through its loop: \<open>None\<close>
  when it has not returned by then, otherwise the error returned (or nil).
\<close>

definition monitorExperiment ::
  "nat \<Rightarrow> env \<Rightarrow> Experiment \<Rightarrow> Duration \<Rightarrow> world
    \<Rightarrow> (error option \<times> Experiment \<times> world) option" where
  "monitorExperiment n E exp interval w =
     (case pollLoop n E interval (exp, w) of
        (Polling, s) \<Rightarrow> None
      | (Failed err, exp1, w1) \<Rightarrow> Some (Some err, exp1, w1)
      | (Left, s) \<Rightarrow> Some (fetchAfterCompletion E s))"

text \<open>The state a pass through the loop body ends in, however it ends.\<close>

fun stepState :: "'a step \<Rightarrow> 'a" where
  "stepState (Continue s) = s"
| "stepState (Break s) = s"
| "stepState (Return err s) = s"

text \<open>How often the process has slept for the duration \<open>d\<close>.\<close>

definition sleepCount :: "Duration \<Rightarrow> world \<Rightarrow> nat" where
  "sleepCount d w = length (filter (\<lambda>e. e = Sleep d) (trace w))"

text \<open>
  The world \<open>w1\<close> is the world \<open>w\<close> after more events, none of them a database statement;
  and the database statements that write the job status.
\<close>

definition quietlyExtends :: "world \<Rightarrow> world \<Rightarrow> bool" where
  "quietlyExtends w w1 = (\<exists>evs. w1 = w\<lparr>trace := trace w @ evs\<rparr> \<and> filter isDbExec evs = [])"

fun isStatusWrite :: "event \<Rightarrow> bool" where
  "isStatusWrite (DbExec (SetStatus i s)) = True"
| "isStatusWrite (DbExec (SetStatusCompleted i s t)) = True"
| "isStatusWrite e = False"

section \<open>Example environments\<close>

text \<open>
  Concrete environments for the examples below. \<open>exampleCompile\<close> stands for
  \<open>regexp.Compile\<close> on the expressions the examples use: an unbalanced parenthesis does not
  compile, \<open>\.json$\<close> matches the strings that end in \<open>.json\<close>, \<open>^c\.json$\<close> matches
  \<open>c.json\<close> only, and any other text is taken to match the strings that contain it.
\<close>

definition succeeded :: "string \<Rightarrow> proc_result" where
  "succeeded out = \<lparr>p_stdout = out, p_stderr = [], p_err = None\<rparr>"

definition exited :: "string \<Rightarrow> string \<Rightarrow> proc_result" where
  "exited msg out = \<lparr>p_stdout = out, p_stderr = [], p_err = Some msg\<rparr>"

fun containsText :: "string \<Rightarrow> string \<Rightarrow> bool" where
  "containsText p [] = (p = [])"
| "containsText p (c # cs) = (take (length p) (c # cs) = p \<or> containsText p cs)"

definition exampleCompile :: "string \<Rightarrow> string + (string \<Rightarrow> bool)" where
  "exampleCompile p =
     (if p = ''('' then Inl ''missing closing )''
      else if p = [CHR 0x5C] @ ''.json$'' then
        Inr (\<lambda>s. length s \<ge> 5 \<and> drop (length s - 5) s = ''.json'')
      else if p = ''^c'' @ [CHR 0x5C] @ ''.json$'' then Inr (\<lambda>s. s = ''c.json'')
      else Inr (containsText p))"

definition exampleEnv :: "(nat \<Rightarrow> string list \<Rightarrow> proc_result) \<Rightarrow> env" where
  "exampleEnv rp =
     \<lparr>run_process = rp,
      db_failure = (\<lambda>k. None),
      time_now = (\<lambda>k. 1700000000000000000 + int k * 1000000000),
      user_home_dir = Inr ''/home/u'',
      getwd = Inr ''/home/u'',
      mkdir_all = (\<lambda>p. None),
      regexp_compile = exampleCompile,
      error_text = (\<lambda>e. ''error'')\<rparr>"

definition emptyRow :: db_row where
  "emptyRow = \<lparr>job_status = ''SUBMITTED'', completed_at = None, artifact_last_sync = None,
               artifact_last_error = []\<rparr>"

definition startWorld :: world where
  "startWorld = \<lparr>trace = [], db = (\<lambda>i. if i = 1 then Some emptyRow else None)\<rparr>"

definition exampleExp :: Experiment where
  "exampleExp =
     \<lparr>ID = 1, Name = ''run1'', Remote = ''user@host'', ScriptPath = ''/a/b.sh'', Args = [],
      GitCommit = [], GitBranch = [], JobID = ''42'', JobStatus = ''SUBMITTED'',
      LogPath = ''/logs/run1-42.out'', CreatedAt = 1700000000000000000, CompletedAt = zeroTime,
      ArtifactRemote = [], ArtifactDest = [], ArtifactSources = [], ArtifactPattern = [],
      ArtifactSinceStart = False, ArtifactLastSync = zeroTime, ArtifactLastError = [],
      ConfigSnapshot = []\<rparr>"


text \<open>The queue no longer knows the job, and the accounting prints a cancelled job.\<close>

definition accountingEnv :: env where
  "accountingEnv =
     exampleEnv (\<lambda>k argv. if argv = sacctArgv ''user@host'' ''42''
                           then succeeded (''  CANCELLED+ by 1001 '' @ [CHR 0x0A])
                           else succeeded [])"




text \<open>An expression that matches the file name \<open>c.json\<close> and nothing else.\<close>

definition baseOnly :: regexp where
  "baseOnly = (\<lambda>s. s = ''c.json'')"

text \<open>
  Remote trees: one whose listing is empty five times and shows three files the sixth time,
  one whose listing is always empty, and one that shows the three files at once.
\<close>

definition threeFiles :: string where
  "threeFiles = ''./a.json'' @ [CHR 0x0A] @ ''./b.txt'' @ [CHR 0x0A] @ ''./sub/c.json''
                @ [CHR 0x0A]"

definition sixthTimeEnv :: env where
  "sixthTimeEnv = exampleEnv (\<lambda>k argv. if k < 5 then succeeded [] else succeeded threeFiles)"

definition alwaysEmptyEnv :: env where
  "alwaysEmptyEnv = exampleEnv (\<lambda>k argv. succeeded [])"


text \<open>A remote host that cannot be reached: every command fails.\<close>

definition unreachableEnv :: env where
  "unreachableEnv = exampleEnv (\<lambda>k argv. exited ''exit status 255'' [])"

text \<open>
  A job that the queue reports as running; and a host without the accounting tool, where the
  queue no longer knows the job.
\<close>

definition runningEnv :: env where
  "runningEnv = exampleEnv (\<lambda>k argv. succeeded (''RUNNING'' @ [CHR 0x0A]))"


section \<open>The events of a discovery\<close>

text \<open>
  What a discovery is expected to leave in the trace. An attempt of a strategy is one listing
  command, after a pause of three seconds unless it is the first attempt of its strategy;
  \<open>retryEvents ts n\<close> are the events of the first \<open>n\<close> attempts of the strategy with time
  stamp \<open>ts\<close>. \<open>listingAt\<close> is the answer to the listing command of a strategy when it is the
  process number \<open>k\<close>.
\<close>

definition stepEvents :: "string \<Rightarrow> string \<Rightarrow> Time \<Rightarrow> nat \<Rightarrow> event list" where
  "stepEvents remote root ts retry =
     (if retry > 0 then [Sleep (3 * Second)] else []) @ [Exec (listArgv remote root ts) []]"

definition retryEvents :: "string \<Rightarrow> string \<Rightarrow> Time \<Rightarrow> nat \<Rightarrow> event list" where
  "retryEvents remote root ts n = concat (map (stepEvents remote root ts) [0..<n])"

definition listingAt :: "env \<Rightarrow> string \<Rightarrow> string \<Rightarrow> Time \<Rightarrow> nat \<Rightarrow> error + string list" where
  "listingAt E remote root ts k =
     listingOf (findCommand root ts) (run_process E k (listArgv remote root ts))"

text \<open>The events of strategies that were tried six times each without a file.\<close>

definition exhaustedEvents :: "string \<Rightarrow> string \<Rightarrow> Time list \<Rightarrow> event list" where
  "exhaustedEvents remote root as = concat (map (\<lambda>ts. retryEvents remote root ts 6) as)"

text \<open>
  The parameters of a fetch that pass the checks at the head of \<open>fetchArtifacts\<close>: the remote
  path is absolute, the destination expands to a path, and the start time is recorded when
  the listing is to be filtered by it.
\<close>

definition parametersAccepted ::
  "env \<Rightarrow> Experiment \<Rightarrow> string \<Rightarrow> string \<Rightarrow> bool \<Rightarrow> bool" where
  "parametersAccepted E exp remotePath destDir sinceStart =
     (remotePath \<noteq> [] \<and> HasPrefix remotePath ''/''
      \<and> (\<exists>absDest. expandLocalPath E destDir = Inr absDest \<and> absDest \<noteq> [])
      \<and> \<not> (sinceStart \<and> IsZero (CreatedAt exp)))"

text \<open>The time stamp of the first strategy of a fetch.\<close>

definition sinceOf :: "Experiment \<Rightarrow> bool \<Rightarrow> Time" where
  "sinceOf exp sinceStart = (if sinceStart then CreatedAt exp else zeroTime)"


section \<open>Properties of the status classifier\<close>

lemma toUpperByte_Char:
  "toUpperByte (Char b0 b1 b2 b3 b4 b5 b6 b7) =
     (if 97 \<le> (of_char (Char b0 b1 b2 b3 b4 b5 b6 b7) :: nat)
         \<and> (of_char (Char b0 b1 b2 b3 b4 b5 b6 b7) :: nat) \<le> 122
      then Char b0 b1 b2 b3 b4 False b6 b7
      else Char b0 b1 b2 b3 b4 b5 b6 b7)"
  by (cases b0; cases b1; cases b2; cases b3; cases b4; cases b5; cases b6; cases b7;
      simp add: toUpperByte_def char_of_def bit_Suc_0_iff)

lemma TrimSpace_Nil: "TrimSpace [] = []"
  by (simp add: TrimSpace_def)





section \<open>Properties of the two-tier status lookup\<close>


lemma processCount_sleep: "processCount (sleep d w) = processCount w"
  by (simp add: processCount_def sleep_def)

lemma splitFrom_shape: "\<exists>x rest. splitFrom sep cur cs = (cur @ x) # rest"
proof (induction cs arbitrary: cur)
  case Nil
  then show ?case by simp
next
  case (Cons c cs)
  show ?case
  proof (cases "c = sep")
    case True
    then show ?thesis by simp
  next
    case False
    from Cons.IH[of "cur @ [c]"] obtain x rest where
      "splitFrom sep (cur @ [c]) cs = ((cur @ [c]) @ x) # rest" by blast
    with False show ?thesis by simp
  qed
qed

lemma SplitLines_not_Nil: "SplitLines s \<noteq> []"
  using splitFrom_shape[of "CHR 0x0A" "[]" s] by (auto simp: SplitLines_def)





lemma runSqueue_result:
  "runSqueue E remote jobID w =
     ((case p_err (run_process E (processCount w) (squeueArgv remote jobID)) of
         Some e \<Rightarrow> Inl (SqueueFailed e (TrimSpace (combinedOutput (run_process E (processCount w) (squeueArgv remote jobID)))))
       | None \<Rightarrow> (if TrimSpace (combinedOutput (run_process E (processCount w) (squeueArgv remote jobID))) = [] then Inr []
           else Inr (TrimSpace (hd (SplitLines (TrimSpace (combinedOutput (run_process E (processCount w) (squeueArgv remote jobID))))))))),
      w\<lparr>trace := trace w @ [Exec (squeueArgv remote jobID) []]\<rparr>)"
  using SplitLines_not_Nil
  by (auto simp: runSqueue_def runCommand_def Let_def split: option.splits list.splits)


lemma runSacct_result:
  "runSacct E remote jobID w =
     ((case p_err (run_process E (processCount w) (sacctArgv remote jobID)) of
         Some e \<Rightarrow> Inl (SacctFailed e (TrimSpace (combinedOutput (run_process E (processCount w) (sacctArgv remote jobID)))))
       | None \<Rightarrow> Inr (sacctLines (SplitLines (TrimSpace (combinedOutput (run_process E (processCount w) (sacctArgv remote jobID))))))),
      w\<lparr>trace := trace w @ [Exec (sacctArgv remote jobID) []]\<rparr>)"
  by (auto simp: runSacct_def runCommand_def split: option.splits)




text \<open>
  Claim C10. With an empty job identifier the status query answers UNKNOWN without an error
  and leaves the world as it was: no process is started, so neither the queue nor the
  accounting is asked.
\<close>

theorem C10_empty_job_id_unknown:
  "queryJobStatus E remote [] w = (Inr ''UNKNOWN'', w)"
  by (simp add: queryJobStatus_def)


lemmas lookup_eval =
  queryJobStatus_def runSqueue_def runSacct_def runCommand_def exampleEnv_def succeeded_def
  exited_def combinedOutput_def squeueArgv_def sacctArgv_def TrimSpace_def isSpace_def
  SplitLines_def sacctState_def TrimByte_def startWorld_def processCount_def



section \<open>Properties of job submission\<close>









section \<open>Properties of the effective artifact sources\<close>
















section \<open>Properties of the remote listing command\<close>

lemma digitChar_not_quote: "d < 10 \<Longrightarrow> digitChar d \<noteq> CHR 0x27"
proof -
  assume "d < 10"
  then have "d \<in> {0,1,2,3,4,5,6,7,8,9}" by auto
  then show ?thesis by (auto simp: digitChar_def)
qed

lemma showNat_no_quote: "CHR 0x27 \<notin> set (showNat n)"
proof (induction n rule: showNat.induct)
  case (1 n)
  show ?case
  proof (cases "n < 10")
    case True
    then show ?thesis using digitChar_not_quote[of n] by (subst showNat.simps) simp
  next
    case False
    have "n mod 10 < 10" by simp
    then have "digitChar (n mod 10) \<noteq> CHR 0x27" by (rule digitChar_not_quote)
    with False 1 show ?thesis by (subst showNat.simps) simp
  qed
qed

lemma showInt_no_quote: "CHR 0x27 \<notin> set (showInt i)"
  by (simp add: showInt_def showNat_no_quote)

lemma ReplaceByte_absent: "b \<notin> set s \<Longrightarrow> ReplaceByte s b new = s"
  by (induction s) (auto simp: ReplaceByte_def)

lemma shellQuote_epoch:
  "shellQuote (CHR ''@'' # showInt i) = CHR 0x27 # CHR ''@'' # showInt i @ [CHR 0x27]"
proof -
  have "CHR 0x27 \<notin> set (CHR ''@'' # showInt i)" by (simp add: showInt_no_quote)
  then have "ReplaceByte (CHR ''@'' # showInt i) (CHR 0x27)
               [CHR 0x27, CHR 0x22, CHR 0x27, CHR 0x22, CHR 0x27] = CHR ''@'' # showInt i"
    by (rule ReplaceByte_absent)
  then show ?thesis by (simp add: shellQuote_def)
qed

lemma cutoff_epoch: "Unix (Add (UTC T) (- sinceStartGracePeriod)) = Unix T - 120"
proof -
  have "(T + (- 120) * 1000000000) div 1000000000 = (- 120) + T div 1000000000"
    by (rule div_mult_self1) simp
  then show ?thesis
    by (simp add: Unix_def Add_def UTC_def sinceStartGracePeriod_def Minute_def Second_def)
qed

text \<open>
  Claim C7. For a since time \<open>T\<close> that is set (not the zero time), the cut-off of the listing
  is \<open>T\<close> minus two minutes, in whole seconds since the Unix epoch: it is the number that the
  command started on the remote host carries behind \<open>-newermt\<close>, as \<open>@\<close> seconds in single
  quotes.
\<close>

theorem C7_cutoff_is_since_minus_grace:
  "\<not> IsZero T \<Longrightarrow>
     Unix (Add (UTC T) (- sinceStartGracePeriod)) = Unix T - 2 * 60
     \<and> findCommand root T
         = findHead root @ '' -newermt '' @ [CHR 0x27] @ ''@'' @ showInt (Unix T - 2 * 60)
           @ [CHR 0x27] @ '' -print''
     \<and> snd (listRemoteFiles E remote root T w)
         = w\<lparr>trace := trace w @ [Exec [''ssh'', remote, ''bash'', ''-lc'', findCommand root T] []]\<rparr>"
  by (simp add: findCommand_def cutoff_epoch shellQuote_epoch listRemoteFiles_def runCommand_def
      listArgv_def Let_def)

text \<open>
  A since time of 1700000000 seconds and 123456789 nanoseconds gives the cut-off
  \<open>@1699999880\<close>.
\<close>

theorem C7_cutoff_is_since_minus_grace_witness:
  "\<not> IsZero 1700000000123456789
   \<and> Unix (Add (UTC 1700000000123456789) (- sinceStartGracePeriod)) = 1699999880
   \<and> findCommand ''/data/out'' 1700000000123456789
       = findHead ''/data/out'' @ '' -newermt '' @ [CHR 0x27] @ ''@1699999880'' @ [CHR 0x27]
         @ '' -print''"
proof -
  have z: "\<not> IsZero 1700000000123456789"
    by (simp add: IsZero_def zeroTime_def)
  have u: "Unix 1700000000123456789 - 2 * 60 = 1699999880"
    by (simp add: Unix_def)
  have s: "showInt 1699999880 = ''1699999880''"
    by (simp add: showInt_def digitChar_def showNat.simps)
  note th = C7_cutoff_is_since_minus_grace[OF z, of "''/data/out''"]
  from th have a: "Unix (Add (UTC 1700000000123456789) (- sinceStartGracePeriod)) = 1699999880"
    by (simp only: u)
  from th have "findCommand ''/data/out'' 1700000000123456789
       = findHead ''/data/out'' @ '' -newermt '' @ [CHR 0x27] @ ''@''
         @ showInt (Unix 1700000000123456789 - 2 * 60) @ [CHR 0x27] @ '' -print''"
    by blast
  then have b: "findCommand ''/data/out'' 1700000000123456789
       = findHead ''/data/out'' @ '' -newermt '' @ [CHR 0x27] @ ''@1699999880'' @ [CHR 0x27]
         @ '' -print''"
    by (simp only: u s) simp
  from z a b show ?thesis by blast
qed

section \<open>Properties of the pattern filter\<close>

lemma anyMatches_iff:
  "anyMatches res rel base full \<longleftrightarrow>
     (\<exists>re. Some re \<in> set res \<and> (re rel \<or> re base \<or> re full))"
  by (induction res rel base full rule: anyMatches.induct) auto

lemma HasPrefix_slash_not_Nil: "HasPrefix p ''/'' \<Longrightarrow> p \<noteq> []"
  by (auto simp: HasPrefix_def)

text \<open>
  Claim C5. For a source root that is absolute: an empty list of expressions accepts every
  path; otherwise a path is accepted exactly when some expression of the list matches the
  relative path, its last element, or the relative path joined onto the root. So an
  expression that matches the last element alone is enough.
\<close>

theorem C5_three_way_match:
  "HasPrefix remoteRoot ''/'' \<Longrightarrow>
     patternMatches [] remoteRoot rel
     \<and> (patternMatches res remoteRoot rel \<longleftrightarrow>
          res = [] \<or> (\<exists>re. Some re \<in> set res
                        \<and> (re rel \<or> re (pathBase rel) \<or> re (pathJoin [remoteRoot, rel]))))
     \<and> (\<forall>re. Some re \<in> set res \<and> re (pathBase rel) \<longrightarrow> patternMatches res remoteRoot rel)"
  using HasPrefix_slash_not_Nil[of remoteRoot]
  by (auto simp: patternMatches_def anyMatches_iff fullPath_def)

text \<open>
  The expression that matches \<open>c.json\<close> only accepts \<open>sub/c.json\<close> under \<open>/data/out\<close> through
  its last element, and does not accept \<open>sub/d.json\<close>.
\<close>

theorem C5_three_way_match_witness:
  "HasPrefix ''/data/out'' ''/''
   \<and> \<not> baseOnly ''sub/c.json''
   \<and> \<not> baseOnly (pathJoin [''/data/out'', ''sub/c.json''])
   \<and> baseOnly (pathBase ''sub/c.json'')
   \<and> patternMatches [Some baseOnly] ''/data/out'' ''sub/c.json''
   \<and> \<not> patternMatches [Some baseOnly] ''/data/out'' ''sub/d.json''
   \<and> patternMatches [] ''/data/out'' ''sub/d.json''"
proof -
  have hp: "HasPrefix ''/data/out'' ''/''" by (simp add: HasPrefix_def)
  have j: "pathJoin [''/data/out'', ''sub/c.json''] = ''/data/out/sub/c.json''"
    by (simp add: pathClean_def pathIsAbs_def HasPrefix_def)
  have j2: "pathJoin [''/data/out'', ''sub/d.json''] = ''/data/out/sub/d.json''"
    by (simp add: pathClean_def pathIsAbs_def HasPrefix_def)
  have b: "pathBase ''sub/c.json'' = ''c.json''" by (simp add: pathBase_def TrimRightByte_def)
  have b2: "pathBase ''sub/d.json'' = ''d.json''" by (simp add: pathBase_def TrimRightByte_def)
  have n1: "\<not> baseOnly ''sub/c.json''" by (simp add: baseOnly_def)
  have n2: "\<not> baseOnly (pathJoin [''/data/out'', ''sub/c.json''])"
    by (simp only: j) (simp add: baseOnly_def)
  have m: "baseOnly (pathBase ''sub/c.json'')" by (simp only: b) (simp add: baseOnly_def)
  have d: "\<not> (baseOnly ''sub/d.json'' \<or> baseOnly (pathBase ''sub/d.json'')
              \<or> baseOnly (pathJoin [''/data/out'', ''sub/d.json'']))"
    by (simp only: j2 b2) (simp add: baseOnly_def)
  have mem: "Some baseOnly \<in> set [Some baseOnly]" by simp
  from C5_three_way_match[OF hp, of "''sub/c.json''" "[Some baseOnly]"] mem m
  have p: "patternMatches [Some baseOnly] ''/data/out'' ''sub/c.json''" by blast
  from C5_three_way_match[OF hp, of "''sub/d.json''" "[Some baseOnly]"] d
  have q: "\<not> patternMatches [Some baseOnly] ''/data/out'' ''sub/d.json''" by auto
  from C5_three_way_match[OF hp, of "''sub/d.json''" "[]"]
  have e: "patternMatches [] ''/data/out'' ''sub/d.json''" by blast
  from hp n1 n2 m p q e show ?thesis by blast
qed

section \<open>Properties of artifact discovery\<close>

lemma listRemoteFiles_eq:
  "listRemoteFiles E remote root ts w =
     (listingAt E remote root ts (processCount w),
      w\<lparr>trace := trace w @ [Exec (listArgv remote root ts) []]\<rparr>)"
  by (simp add: listRemoteFiles_def runCommand_def listingAt_def)

lemma retry_step_empty:
  assumes "listingAt E remote root ts (processCount w) = Inr []"
  shows "retryLoop E remote root ts (r # rs) w =
           retryLoop E remote root ts rs (w\<lparr>trace := trace w @ stepEvents remote root ts r\<rparr>)"
  using assms
  by (cases "r > 0")
     (simp_all add: listRemoteFiles_eq Let_def stepEvents_def sleep_def processCount_def)

lemma retry_step_found:
  assumes "listingAt E remote root ts (processCount w) = Inr files" and "files \<noteq> []"
  shows "retryLoop E remote root ts (r # rs) w =
           (Found files, w\<lparr>trace := trace w @ stepEvents remote root ts r\<rparr>)"
  using assms
  by (cases "r > 0")
     (simp_all add: listRemoteFiles_eq Let_def stepEvents_def sleep_def processCount_def)

lemma processCount_stepEvents:
  "processCount (w\<lparr>trace := trace w @ stepEvents remote root ts r\<rparr>) = Suc (processCount w)"
  by (simp add: processCount_def stepEvents_def)

lemma retry_exhausted:
  "(\<forall>i<m. listingAt E remote root ts (processCount w + i) = Inr []) \<Longrightarrow>
   retryLoop E remote root ts [r..<r + m] w =
     (Exhausted, w\<lparr>trace := trace w @ concat (map (stepEvents remote root ts) [r..<r + m])\<rparr>)"
proof (induction m arbitrary: r w)
  case 0
  then show ?case by simp
next
  case (Suc m)
  let ?w1 = "w\<lparr>trace := trace w @ stepEvents remote root ts r\<rparr>"
  from Suc.prems have here: "listingAt E remote root ts (processCount w) = Inr []"
    by (metis add_0_right zero_less_Suc)
  have later: "\<forall>i<m. listingAt E remote root ts (processCount ?w1 + i) = Inr []"
  proof (intro allI impI)
    fix i assume "i < m"
    then have "Suc i < Suc m" by simp
    with Suc.prems have "listingAt E remote root ts (processCount w + Suc i) = Inr []" by blast
    then show "listingAt E remote root ts (processCount ?w1 + i) = Inr []"
      by (simp add: processCount_stepEvents)
  qed
  have up: "[r..<r + Suc m] = r # [Suc r..<Suc r + m]"
    by (simp add: upt_conv_Cons)
  have "retryLoop E remote root ts [r..<r + Suc m] w
          = retryLoop E remote root ts [Suc r..<Suc r + m] ?w1"
    by (simp only: up retry_step_empty[OF here])
  also have "\<dots> = (Exhausted,
        ?w1\<lparr>trace := trace ?w1 @ concat (map (stepEvents remote root ts) [Suc r..<Suc r + m])\<rparr>)"
    by (rule Suc.IH[OF later])
  finally show ?case by (simp only: up) simp
qed

lemma retry_found:
  "k < m \<Longrightarrow> (\<forall>i<k. listingAt E remote root ts (processCount w + i) = Inr []) \<Longrightarrow>
   listingAt E remote root ts (processCount w + k) = Inr files \<Longrightarrow> files \<noteq> [] \<Longrightarrow>
   retryLoop E remote root ts [r..<r + m] w =
     (Found files,
      w\<lparr>trace := trace w @ concat (map (stepEvents remote root ts) [r..<r + Suc k])\<rparr>)"
proof (induction k arbitrary: r w m)
  case 0
  then obtain m' where m: "m = Suc m'" by (cases m) auto
  have up: "[r..<r + Suc m'] = r # [Suc r..<Suc r + m']" by (simp add: upt_conv_Cons)
  from 0 have here: "listingAt E remote root ts (processCount w) = Inr files" by simp
  show ?case
    by (simp only: m up retry_step_found[OF here \<open>files \<noteq> []\<close>]) simp
next
  case (Suc k)
  then obtain m' where m: "m = Suc m'" and km: "k < m'" by (cases m) auto
  let ?w1 = "w\<lparr>trace := trace w @ stepEvents remote root ts r\<rparr>"
  from Suc.prems(2) have here: "listingAt E remote root ts (processCount w) = Inr []"
    by (metis add_0_right zero_less_Suc)
  have later: "\<forall>i<k. listingAt E remote root ts (processCount ?w1 + i) = Inr []"
  proof (intro allI impI)
    fix i assume "i < k"
    then have "Suc i < Suc k" by simp
    with Suc.prems(2) have "listingAt E remote root ts (processCount w + Suc i) = Inr []" by blast
    then show "listingAt E remote root ts (processCount ?w1 + i) = Inr []"
      by (simp add: processCount_stepEvents)
  qed
  from Suc.prems(3) have at: "listingAt E remote root ts (processCount ?w1 + k) = Inr files"
    by (simp add: processCount_stepEvents)
  have up: "[r..<r + Suc m'] = r # [Suc r..<Suc r + m']" by (simp add: upt_conv_Cons)
  have up2: "[r..<r + Suc (Suc k)] = r # [Suc r..<Suc r + Suc k]" by (simp add: upt_conv_Cons)
  have "retryLoop E remote root ts [r..<r + m] w
          = retryLoop E remote root ts [Suc r..<Suc r + m'] ?w1"
    by (simp only: m up retry_step_empty[OF here])
  also have "\<dots> = (Found files,
        ?w1\<lparr>trace := trace ?w1 @ concat (map (stepEvents remote root ts) [Suc r..<Suc r + Suc k])\<rparr>)"
    by (rule Suc.IH[OF km later at \<open>files \<noteq> []\<close>])
  finally show ?case by (simp only: up2) simp
qed


lemma processCount_retryEvents:
  "processCount (w\<lparr>trace := trace w @ retryEvents remote root ts n\<rparr>) = processCount w + n"
  by (induction n) (simp_all add: processCount_def retryEvents_def stepEvents_def)

lemma strategy_exhausted:
  assumes "\<forall>i<6. listingAt E remote root ts (processCount w + i) = Inr []"
  shows "retryLoop E remote root ts [0..<6] w =
           (Exhausted, w\<lparr>trace := trace w @ retryEvents remote root ts 6\<rparr>)"
  using retry_exhausted[OF assms, of 0] by (simp add: retryEvents_def)

lemma strategy_found:
  assumes "k < 6" and "\<forall>i<k. listingAt E remote root ts (processCount w + i) = Inr []"
    and "listingAt E remote root ts (processCount w + k) = Inr files" and "files \<noteq> []"
  shows "retryLoop E remote root ts [0..<6] w =
           (Found files, w\<lparr>trace := trace w @ retryEvents remote root ts (Suc k)\<rparr>)"
  using retry_found[OF assms, of 0] by (simp add: retryEvents_def)

lemma attempt_exhausted:
  "(\<forall>s<length as. \<forall>i<6. listingAt E remote root (as ! s) (processCount w + 6 * s + i) = Inr [])
   \<Longrightarrow> attemptLoop E remote root as w =
     (Exhausted,
      w\<lparr>trace := trace w @ concat (map (\<lambda>ts. retryEvents remote root ts 6) as)\<rparr>)"
proof (induction as arbitrary: w)
  case Nil
  then show ?case by simp
next
  case (Cons ts rest)
  let ?w1 = "w\<lparr>trace := trace w @ retryEvents remote root ts 6\<rparr>"
  have first: "\<forall>i<6. listingAt E remote root ts (processCount w + i) = Inr []"
  proof (intro allI impI)
    fix i :: nat assume "i < 6"
    with Cons.prems have "listingAt E remote root ((ts # rest) ! 0) (processCount w + 6 * 0 + i) = Inr []"
      by (metis length_greater_0_conv list.distinct(1))
    then show "listingAt E remote root ts (processCount w + i) = Inr []" by simp
  qed
  have others: "\<forall>s<length rest. \<forall>i<6.
      listingAt E remote root (rest ! s) (processCount ?w1 + 6 * s + i) = Inr []"
  proof (intro allI impI)
    fix s i :: nat assume "s < length rest" "i < 6"
    then have "Suc s < length (ts # rest)" by simp
    with Cons.prems \<open>i < 6\<close> have
      "listingAt E remote root ((ts # rest) ! Suc s) (processCount w + 6 * Suc s + i) = Inr []"
      by blast
    then show "listingAt E remote root (rest ! s) (processCount ?w1 + 6 * s + i) = Inr []"
      by (simp add: processCount_retryEvents add.assoc add.left_commute)
  qed
  have "attemptLoop E remote root (ts # rest) w = attemptLoop E remote root rest ?w1"
    by (simp add: strategy_exhausted[OF first])
  also have "\<dots> = (Exhausted,
      ?w1\<lparr>trace := trace ?w1 @ concat (map (\<lambda>ts. retryEvents remote root ts 6) rest)\<rparr>)"
    by (rule Cons.IH[OF others])
  finally show ?case by simp
qed

lemma attempt_found:
  "s < length as \<Longrightarrow> k < 6 \<Longrightarrow>
   (\<forall>s'<s. \<forall>i<6. listingAt E remote root (as ! s') (processCount w + 6 * s' + i) = Inr []) \<Longrightarrow>
   (\<forall>i<k. listingAt E remote root (as ! s) (processCount w + 6 * s + i) = Inr []) \<Longrightarrow>
   listingAt E remote root (as ! s) (processCount w + 6 * s + k) = Inr files \<Longrightarrow>
   files \<noteq> [] \<Longrightarrow>
   attemptLoop E remote root as w =
     (Found files,
      w\<lparr>trace := trace w @ concat (map (\<lambda>ts. retryEvents remote root ts 6) (take s as))
                        @ retryEvents remote root (as ! s) (Suc k)\<rparr>)"
proof (induction as arbitrary: s w)
  case Nil
  then show ?case by simp
next
  case (Cons ts rest)
  show ?case
  proof (cases s)
    case 0
    with Cons.prems have a: "\<forall>i<k. listingAt E remote root ts (processCount w + i) = Inr []"
      and b: "listingAt E remote root ts (processCount w + k) = Inr files"
      by simp_all
    show ?thesis
      using strategy_found[OF \<open>k < 6\<close> a b \<open>files \<noteq> []\<close>] 0 by simp
  next
    case (Suc s1)
    let ?w1 = "w\<lparr>trace := trace w @ retryEvents remote root ts 6\<rparr>"
    have first: "\<forall>i<6. listingAt E remote root ts (processCount w + i) = Inr []"
    proof (intro allI impI)
      fix i :: nat assume "i < 6"
      with Cons.prems(3) Suc have
        "listingAt E remote root ((ts # rest) ! 0) (processCount w + 6 * 0 + i) = Inr []"
        by (metis zero_less_Suc)
      then show "listingAt E remote root ts (processCount w + i) = Inr []" by simp
    qed
    have s1: "s1 < length rest" using Cons.prems(1) Suc by simp
    have before: "\<forall>s'<s1. \<forall>i<6.
        listingAt E remote root (rest ! s') (processCount ?w1 + 6 * s' + i) = Inr []"
    proof (intro allI impI)
      fix s' i :: nat assume "s' < s1" "i < 6"
      then have "Suc s' < s" using Suc by simp
      with Cons.prems(3) \<open>i < 6\<close> have
        "listingAt E remote root ((ts # rest) ! Suc s') (processCount w + 6 * Suc s' + i) = Inr []"
        by blast
      then show "listingAt E remote root (rest ! s') (processCount ?w1 + 6 * s' + i) = Inr []"
        by (simp add: processCount_retryEvents add.assoc add.left_commute)
    qed
    have here: "\<forall>i<k. listingAt E remote root (rest ! s1) (processCount ?w1 + 6 * s1 + i) = Inr []"
    proof (intro allI impI)
      fix i :: nat assume "i < k"
      with Cons.prems(4) have
        "listingAt E remote root ((ts # rest) ! s) (processCount w + 6 * s + i) = Inr []"
        by blast
      then show "listingAt E remote root (rest ! s1) (processCount ?w1 + 6 * s1 + i) = Inr []"
        using Suc by (simp add: processCount_retryEvents add.assoc add.left_commute)
    qed
    have at: "listingAt E remote root (rest ! s1) (processCount ?w1 + 6 * s1 + k) = Inr files"
      using Cons.prems(5) Suc by (simp add: processCount_retryEvents add.assoc add.left_commute)
    have "attemptLoop E remote root (ts # rest) w = attemptLoop E remote root rest ?w1"
      by (simp add: strategy_exhausted[OF first])
    also have "\<dots> = (Found files,
        ?w1\<lparr>trace := trace ?w1 @ concat (map (\<lambda>ts. retryEvents remote root ts 6) (take s1 rest))
                        @ retryEvents remote root (rest ! s1) (Suc k)\<rparr>)"
      by (rule Cons.IH[OF s1 \<open>k < 6\<close> before here at \<open>files \<noteq> []\<close>])
    finally show ?thesis using Suc by simp
  qed
qed

lemma retryEvents_six:
  "retryEvents remote root ts 6 =
     [Exec (listArgv remote root ts) [], Sleep (3 * Second),
      Exec (listArgv remote root ts) [], Sleep (3 * Second),
      Exec (listArgv remote root ts) [], Sleep (3 * Second),
      Exec (listArgv remote root ts) [], Sleep (3 * Second),
      Exec (listArgv remote root ts) [], Sleep (3 * Second),
      Exec (listArgv remote root ts) []]"
  by (simp add: retryEvents_def stepEvents_def upt_rec)


lemma fetch_after_parameters:
  assumes "parametersAccepted E exp remotePath destDir sinceStart"
  shows "\<exists>absDest. absDest \<noteq> [] \<and> expandLocalPath E destDir = Inr absDest \<and>
     fetchArtifacts E exp remotePath destDir patterns sinceStart dryRun w =
       (case discoverFiles E (Remote exp) remotePath sinceStart (sinceOf exp sinceStart) w of
          (Inl err, w1) \<Rightarrow> (Some err, w1)
        | (Inr files, w1) \<Rightarrow>
            if length files = 0 then (None, w1)
            else
              (case compilePatterns E [] patterns of
                 Inl err \<Rightarrow> (Some err, w1)
               | Inr compiled \<Rightarrow>
                   let filtered = filter (patternMatches compiled remotePath) files in
                   if length filtered = 0 then (None, w1)
                   else if dryRun then (None, w1)
                   else rsyncFiles E (Remote exp) remotePath filtered absDest w1))"
proof -
  from assms obtain absDest where a: "expandLocalPath E destDir = Inr absDest" "absDest \<noteq> []"
    by (auto simp: parametersAccepted_def)
  from assms have b: "remotePath \<noteq> []" "HasPrefix remotePath ''/''"
      "\<not> (sinceStart \<and> IsZero (CreatedAt exp))"
    by (auto simp: parametersAccepted_def)
  have "fetchArtifacts E exp remotePath destDir patterns sinceStart dryRun w =
       (case discoverFiles E (Remote exp) remotePath sinceStart (sinceOf exp sinceStart) w of
          (Inl err, w1) \<Rightarrow> (Some err, w1)
        | (Inr files, w1) \<Rightarrow>
            if length files = 0 then (None, w1)
            else
              (case compilePatterns E [] patterns of
                 Inl err \<Rightarrow> (Some err, w1)
               | Inr compiled \<Rightarrow>
                   let filtered = filter (patternMatches compiled remotePath) files in
                   if length filtered = 0 then (None, w1)
                   else if dryRun then (None, w1)
                   else rsyncFiles E (Remote exp) remotePath filtered absDest w1))"
  proof (cases sinceStart)
    case True
    with b(3) have "\<not> IsZero (CreatedAt exp)" by simp
    with True a b(1,2) show ?thesis by (simp add: fetchArtifacts_def sinceOf_def Let_def)
  next
    case False
    with a b(1,2) show ?thesis by (simp add: fetchArtifacts_def sinceOf_def Let_def)
  qed
  with a show ?thesis by blast
qed

lemma fetch_no_files:
  assumes "parametersAccepted E exp remotePath destDir sinceStart"
    and "discoverFiles E (Remote exp) remotePath sinceStart (sinceOf exp sinceStart) w = (Inr [], w1)"
  shows "fetchArtifacts E exp remotePath destDir patterns sinceStart dryRun w = (None, w1)"
  using fetch_after_parameters[OF assms(1), of patterns dryRun w] assms(2) by auto

lemma listingAt_threeFiles:
  "listingOf c (succeeded threeFiles) = Inr [''a.json'', ''b.txt'', ''sub/c.json'']"
  by (simp add: listingOf_def succeeded_def threeFiles_def TrimSpace_def isSpace_def
      SplitLines_def TrimPrefix_def HasPrefix_def)

lemma listingAt_nothing: "listingOf c (succeeded []) = Inr []"
  by (simp add: listingOf_def succeeded_def TrimSpace_Nil)

text \<open>
  Claim C3. The strategies of a discovery are the time-filtered listing, when filtering by the
  start time is asked for, and then the unfiltered listing. Six attempts of a strategy are
  six listing commands with a pause of three seconds between them. When the attempt number
  \<open>k\<close> of the strategy number \<open>s\<close> is the first that shows a file (every attempt before it,
  of this and of the earlier strategies, showed none), the discovery returns the files of
  that attempt, and its trace ends with that attempt: six attempts for each earlier strategy,
  \<open>k + 1\<close> attempts of this one, and nothing after. When no attempt of any strategy shows a
  file, the discovery returns the empty list after six attempts of each strategy, and the
  fetch returns without an error.
\<close>

theorem C3_discovery_retry_policy:
  "(let as = attemptsFor sinceStart (sinceOf exp sinceStart);
        pc = processCount w;
        remote = Remote exp
    in as = (if sinceStart then [CreatedAt exp, zeroTime] else [zeroTime])
     \<and> (\<forall>ts. retryEvents remote root ts 6 =
           [Exec (listArgv remote root ts) [], Sleep (3 * Second),
            Exec (listArgv remote root ts) [], Sleep (3 * Second),
            Exec (listArgv remote root ts) [], Sleep (3 * Second),
            Exec (listArgv remote root ts) [], Sleep (3 * Second),
            Exec (listArgv remote root ts) [], Sleep (3 * Second),
            Exec (listArgv remote root ts) []])
     \<and> (\<forall>s k files.
           s < length as \<and> k < 6
           \<and> (\<forall>s'<s. \<forall>i<6. listingAt E remote root (as ! s') (pc + 6 * s' + i) = Inr [])
           \<and> (\<forall>i<k. listingAt E remote root (as ! s) (pc + 6 * s + i) = Inr [])
           \<and> listingAt E remote root (as ! s) (pc + 6 * s + k) = Inr files \<and> files \<noteq> []
           \<longrightarrow> discoverFiles E remote root sinceStart (sinceOf exp sinceStart) w =
                 (Inr files,
                  w\<lparr>trace := trace w @ exhaustedEvents remote root (take s as)
                                    @ retryEvents remote root (as ! s) (Suc k)\<rparr>))
     \<and> ((\<forall>s<length as. \<forall>i<6. listingAt E remote root (as ! s) (pc + 6 * s + i) = Inr [])
           \<longrightarrow> discoverFiles E remote root sinceStart (sinceOf exp sinceStart) w =
                 (Inr [], w\<lparr>trace := trace w @ exhaustedEvents remote root as\<rparr>)
               \<and> (parametersAccepted E exp root destDir sinceStart \<longrightarrow>
                    fetchArtifacts E exp root destDir patterns sinceStart dryRun w =
                      (None, w\<lparr>trace := trace w @ exhaustedEvents remote root as\<rparr>))))"
proof -
  let ?as = "attemptsFor sinceStart (sinceOf exp sinceStart)"
  let ?since = "sinceOf exp sinceStart"
  have a: "?as = (if sinceStart then [CreatedAt exp, zeroTime] else [zeroTime])"
    by (simp add: attemptsFor_def sinceOf_def)
  have f: "\<And>s k files.
           s < length ?as \<and> k < 6
           \<and> (\<forall>s'<s. \<forall>i<6. listingAt E (Remote exp) root (?as ! s') (processCount w + 6 * s' + i) = Inr [])
           \<and> (\<forall>i<k. listingAt E (Remote exp) root (?as ! s) (processCount w + 6 * s + i) = Inr [])
           \<and> listingAt E (Remote exp) root (?as ! s) (processCount w + 6 * s + k) = Inr files \<and> files \<noteq> []
           \<Longrightarrow> discoverFiles E (Remote exp) root sinceStart ?since w =
                 (Inr files,
                  w\<lparr>trace := trace w @ exhaustedEvents (Remote exp) root (take s ?as)
                                    @ retryEvents (Remote exp) root (?as ! s) (Suc k)\<rparr>)"
  proof -
    fix s k files
    assume h: "s < length ?as \<and> k < 6
           \<and> (\<forall>s'<s. \<forall>i<6. listingAt E (Remote exp) root (?as ! s') (processCount w + 6 * s' + i) = Inr [])
           \<and> (\<forall>i<k. listingAt E (Remote exp) root (?as ! s) (processCount w + 6 * s + i) = Inr [])
           \<and> listingAt E (Remote exp) root (?as ! s) (processCount w + 6 * s + k) = Inr files \<and> files \<noteq> []"
    then have 1: "s < length ?as" and 2: "k < 6"
      and 3: "\<forall>s'<s. \<forall>i<6. listingAt E (Remote exp) root (?as ! s') (processCount w + 6 * s' + i) = Inr []"
      and 4: "\<forall>i<k. listingAt E (Remote exp) root (?as ! s) (processCount w + 6 * s + i) = Inr []"
      and 5: "listingAt E (Remote exp) root (?as ! s) (processCount w + 6 * s + k) = Inr files"
      and 6: "files \<noteq> []"
      by blast+
    show "discoverFiles E (Remote exp) root sinceStart ?since w =
                 (Inr files,
                  w\<lparr>trace := trace w @ exhaustedEvents (Remote exp) root (take s ?as)
                                    @ retryEvents (Remote exp) root (?as ! s) (Suc k)\<rparr>)"
      by (simp add: discoverFiles_def attempt_found[OF 1 2 3 4 5 6] exhaustedEvents_def)
  qed
  have e: "(\<forall>s<length ?as. \<forall>i<6. listingAt E (Remote exp) root (?as ! s) (processCount w + 6 * s + i) = Inr [])
           \<Longrightarrow> discoverFiles E (Remote exp) root sinceStart ?since w =
                 (Inr [], w\<lparr>trace := trace w @ exhaustedEvents (Remote exp) root ?as\<rparr>)"
    by (simp add: discoverFiles_def attempt_exhausted exhaustedEvents_def)
  have g: "(\<forall>s<length ?as. \<forall>i<6. listingAt E (Remote exp) root (?as ! s) (processCount w + 6 * s + i) = Inr [])
           \<Longrightarrow> parametersAccepted E exp root destDir sinceStart \<Longrightarrow>
                    fetchArtifacts E exp root destDir patterns sinceStart dryRun w =
                      (None, w\<lparr>trace := trace w @ exhaustedEvents (Remote exp) root ?as\<rparr>)"
    using e fetch_no_files by blast
  show ?thesis
    unfolding Let_def
    using a retryEvents_six[of "Remote exp" root] f e g by blast
qed


text \<open>
  A listing that is empty five times and shows three files the sixth time: the files are
  found with six listing commands. A listing that is always empty, with the filter by start
  time: the fetch returns without an error after six attempts of each of the two strategies.
\<close>

theorem C3_discovery_retry_policy_witness:
  "discoverFiles sixthTimeEnv ''user@host'' ''/data/out'' False zeroTime startWorld =
     (Inr [''a.json'', ''b.txt'', ''sub/c.json''],
      startWorld\<lparr>trace := retryEvents ''user@host'' ''/data/out'' zeroTime 6\<rparr>)
   \<and> length (filter isExec (retryEvents ''user@host'' ''/data/out'' zeroTime 6)) = 6
   \<and> fetchArtifacts alwaysEmptyEnv exampleExp ''/data/out'' ''/tmp/dest'' [] True False startWorld =
     (None,
      startWorld\<lparr>trace := retryEvents ''user@host'' ''/data/out'' (CreatedAt exampleExp) 6
                            @ retryEvents ''user@host'' ''/data/out'' zeroTime 6\<rparr>)"
proof -
  let ?as = "attemptsFor False (sinceOf exampleExp False)"
  let ?files = "[''a.json'', ''b.txt'', ''sub/c.json'']"
  have as: "?as = [zeroTime]" by (simp add: attemptsFor_def)
  have so: "sinceOf exampleExp False = zeroTime" by (simp add: sinceOf_def)
  have pc: "processCount startWorld = 0" by (simp add: processCount_def startWorld_def)
  have tr: "trace startWorld = []" by (simp add: startWorld_def)
  have rem: "Remote exampleExp = ''user@host''" by (simp add: exampleExp_def)
  note th = C3_discovery_retry_policy[of False exampleExp startWorld "''/data/out''" sixthTimeEnv, unfolded Let_def]
  have h1: "0 < length ?as" by (simp add: as)
  have h2: "(5::nat) < 6" by simp
  have h3: "\<forall>s'<0. \<forall>i<6. listingAt sixthTimeEnv (Remote exampleExp) ''/data/out'' (?as ! s')
              (processCount startWorld + 6 * s' + i) = Inr []" by simp
  have h4: "\<forall>i<5. listingAt sixthTimeEnv (Remote exampleExp) ''/data/out'' (?as ! 0)
              (processCount startWorld + 6 * 0 + i) = Inr []"
    by (simp add: pc listingAt_def sixthTimeEnv_def exampleEnv_def listingAt_nothing)
  have h5: "listingAt sixthTimeEnv (Remote exampleExp) ''/data/out'' (?as ! 0)
              (processCount startWorld + 6 * 0 + 5) = Inr ?files"
    by (simp add: pc listingAt_def sixthTimeEnv_def exampleEnv_def listingAt_threeFiles)
  have h6: "?files \<noteq> []" by simp
  from th h1 h2 h3 h4 h5 h6 have
    "discoverFiles sixthTimeEnv (Remote exampleExp) ''/data/out'' False (sinceOf exampleExp False) startWorld =
       (Inr ?files,
        startWorld\<lparr>trace := trace startWorld @ exhaustedEvents (Remote exampleExp) ''/data/out'' (take 0 ?as)
                                    @ retryEvents (Remote exampleExp) ''/data/out'' (?as ! 0) (Suc 5)\<rparr>)"
    by blast
  then have a: "discoverFiles sixthTimeEnv ''user@host'' ''/data/out'' False zeroTime startWorld =
     (Inr ?files, startWorld\<lparr>trace := retryEvents ''user@host'' ''/data/out'' zeroTime 6\<rparr>)"
    by (simp add: attemptsFor_def so tr rem exhaustedEvents_def)
  have b: "length (filter isExec (retryEvents ''user@host'' ''/data/out'' zeroTime 6)) = 6"
    by (simp add: retryEvents_six)
  let ?bs = "attemptsFor True (sinceOf exampleExp True)"
  have bs: "?bs = [CreatedAt exampleExp, zeroTime]" by (simp add: attemptsFor_def sinceOf_def)
  note th2 = C3_discovery_retry_policy[of True exampleExp startWorld "''/data/out''" alwaysEmptyEnv "''/tmp/dest''" "[]" False,
      unfolded Let_def]
  have e: "\<forall>s<length ?bs. \<forall>i<6. listingAt alwaysEmptyEnv (Remote exampleExp) ''/data/out'' (?bs ! s)
              (processCount startWorld + 6 * s + i) = Inr []"
    by (simp add: listingAt_def alwaysEmptyEnv_def exampleEnv_def listingAt_nothing)
  have p: "parametersAccepted alwaysEmptyEnv exampleExp ''/data/out'' ''/tmp/dest'' True"
    by (simp add: parametersAccepted_def HasPrefix_def expandLocalPath_def pathAbs_def
        pathIsAbs_def pathClean_def exampleExp_def IsZero_def zeroTime_def)
  from th2 e p have
    "fetchArtifacts alwaysEmptyEnv exampleExp ''/data/out'' ''/tmp/dest'' [] True False startWorld =
       (None, startWorld\<lparr>trace := trace startWorld @ exhaustedEvents (Remote exampleExp) ''/data/out'' ?bs\<rparr>)"
    by blast
  then have c: "fetchArtifacts alwaysEmptyEnv exampleExp ''/data/out'' ''/tmp/dest'' [] True False startWorld =
     (None,
      startWorld\<lparr>trace := retryEvents ''user@host'' ''/data/out'' (CreatedAt exampleExp) 6
                            @ retryEvents ''user@host'' ''/data/out'' zeroTime 6\<rparr>)"
    by (simp add: attemptsFor_def sinceOf_def tr rem exhaustedEvents_def)
  from a b c show ?thesis by blast
qed

section \<open>Properties of the fetch of one source\<close>














section \<open>Properties of the status-polling loop\<close>

lemma statementCount_append_Exec:
  "statementCount (w\<lparr>trace := trace w @ [Exec argv inp]\<rparr>) = statementCount w"
  by (simp add: statementCount_def)

lemma query_world:
  "\<exists>evs. snd (queryJobStatus E remote jobID w) = w\<lparr>trace := trace w @ evs\<rparr>
         \<and> (\<forall>e \<in> set evs. isExec e)"
proof (cases "jobID = []")
  case True
  then have "snd (queryJobStatus E remote jobID w) = w\<lparr>trace := trace w @ []\<rparr>"
    by (simp add: queryJobStatus_def)
  then show ?thesis by (metis empty_iff list.set(1))
next
  case False
  let ?q = "Exec (squeueArgv remote jobID) []"
  let ?a = "Exec (sacctArgv remote jobID) []"
  from False have "snd (queryJobStatus E remote jobID w) = w\<lparr>trace := trace w @ [?q]\<rparr>
      \<or> snd (queryJobStatus E remote jobID w) = w\<lparr>trace := trace w @ [?q, ?a]\<rparr>"
    by (auto simp: queryJobStatus_def runSqueue_result runSacct_result split: option.splits)
  then show ?thesis
  proof
    assume a: "snd (queryJobStatus E remote jobID w) = w\<lparr>trace := trace w @ [?q]\<rparr>"
    have "\<forall>e \<in> set [?q]. isExec e" by simp
    with a show ?thesis by blast
  next
    assume a: "snd (queryJobStatus E remote jobID w) = w\<lparr>trace := trace w @ [?q, ?a]\<rparr>"
    have "\<forall>e \<in> set [?q, ?a]. isExec e" by simp
    with a show ?thesis by blast
  qed
qed

lemma query_keeps_db:
  "db (snd (queryJobStatus E remote jobID w)) = db w
   \<and> statementCount (snd (queryJobStatus E remote jobID w)) = statementCount w
   \<and> length (trace w) \<le> length (trace (snd (queryJobStatus E remote jobID w)))"
proof -
  from query_world[of E remote jobID w] obtain evs where
    s: "snd (queryJobStatus E remote jobID w) = w\<lparr>trace := trace w @ evs\<rparr>"
    and e: "\<forall>e \<in> set evs. isExec e" by blast
  have "filter isDbExec evs = []"
  proof -
    have "\<forall>e \<in> set evs. \<not> isDbExec e"
    proof
      fix ev assume "ev \<in> set evs"
      with e have "isExec ev" by blast
      then show "\<not> isDbExec ev" by (cases ev) simp_all
    qed
    then show ?thesis by (simp add: filter_empty_conv)
  qed
  then show ?thesis by (simp add: s statementCount_def)
qed

lemma dbExec_ok:
  "db_failure E (statementCount w) = None \<Longrightarrow>
   dbExec E st w = (None, w\<lparr>trace := trace w @ [DbExec st], db := applyStmt st (db w)\<rparr>)"
  by (simp add: dbExec_def)

lemma dbExec_trace: "trace (snd (dbExec E st w)) = trace w @ [DbExec st]"
  by (simp add: dbExec_def split: option.splits)

lemma statementCount_dbExec_ok:
  "statementCount (w\<lparr>trace := trace w @ [DbExec st], db := d\<rparr>) = Suc (statementCount w)"
  by (simp add: statementCount_def)

lemma poll_query_failed:
  assumes "fst (queryJobStatus E (Remote exp) (JobID exp) w) = Inl err"
  shows "pollIteration E interval (exp, w)
           = Continue (exp, sleep interval (snd (queryJobStatus E (Remote exp) (JobID exp) w)))"
  using assms
  by (cases "queryJobStatus E (Remote exp) (JobID exp) w") (simp add: pollIteration_def)


lemma applyStmt_SetStatus_row:
  "db0 i = Some row \<Longrightarrow> applyStmt (SetStatus i s) db0 i = Some (row\<lparr>job_status := s\<rparr>)"
  by simp

lemma applyStmt_SetStatusCompleted_row:
  "db0 i = Some row \<Longrightarrow>
   applyStmt (SetStatusCompleted i s t) db0 i = Some (row\<lparr>job_status := s, completed_at := Some t\<rparr>)"
  by simp

lemma poll_first_write_failed:
  assumes "queryJobStatus E (Remote exp) (JobID exp) w = (Inr status, wq)"
    and "db_failure E (statementCount w) = Some m"
  shows "pollIteration E interval (exp, w)
           = Return (DbError m) (exp\<lparr>JobStatus := status\<rparr>,
                                 wq\<lparr>trace := trace wq @ [DbExec (SetStatus (ID exp) status)]\<rparr>)"
proof -
  from query_keeps_db[of E "Remote exp" "JobID exp" w] assms(1)
  have "statementCount wq = statementCount w" by simp
  with assms show ?thesis
    by (simp add: pollIteration_def updateExperimentStatus_def dbExec_def Let_def)
qed

lemma poll_active:
  assumes "queryJobStatus E (Remote exp) (JobID exp) w = (Inr status, wq)"
    and "db_failure E (statementCount w) = None" and "isActiveStatus status"
  shows "pollIteration E interval (exp, w)
           = Continue (exp\<lparr>JobStatus := status\<rparr>,
                       wq\<lparr>trace := trace wq @ [DbExec (SetStatus (ID exp) status), Sleep interval],
                          db := applyStmt (SetStatus (ID exp) status) (db w)\<rparr>)"
proof -
  from query_keeps_db[of E "Remote exp" "JobID exp" w] assms(1)
  have "statementCount wq = statementCount w" "db wq = db w" by simp_all
  with assms show ?thesis
    by (simp add: pollIteration_def updateExperimentStatus_def dbExec_def sleep_def Let_def)
qed

lemma poll_terminal:
  assumes "queryJobStatus E (Remote exp) (JobID exp) w = (Inr status, wq)"
    and "db_failure E (statementCount w) = None" and "\<not> isActiveStatus status"
  shows "pollIteration E interval (exp, w) =
     (let t = UTC (time_now E (Suc (length (trace wq))));
          exp2 = exp\<lparr>JobStatus := status, CompletedAt := t\<rparr>;
          tr = trace wq @ [DbExec (SetStatus (ID exp) status),
                           DbExec (SetStatusCompleted (ID exp) status t)]
      in case db_failure E (Suc (statementCount w)) of
           Some m \<Rightarrow> Return (DbError m)
                       (exp2, wq\<lparr>trace := tr, db := applyStmt (SetStatus (ID exp) status) (db w)\<rparr>)
         | None \<Rightarrow> Break
                    (exp2, wq\<lparr>trace := tr,
                             db := applyStmt (SetStatusCompleted (ID exp) status t)
                                     (applyStmt (SetStatus (ID exp) status) (db w))\<rparr>))"
proof -
  from query_keeps_db[of E "Remote exp" "JobID exp" w] assms(1)
  have "statementCount wq = statementCount w" "db wq = db w" by simp_all
  with assms show ?thesis
    by (simp add: pollIteration_def updateExperimentStatus_def dbExec_def now_def Let_def
        statementCount_def split: option.splits)
qed

lemma unreachable_forever:
  assumes "\<forall>k. p_err (run_process E k (squeueArgv (Remote exp) (JobID exp))) \<noteq> None"
    and "JobID exp \<noteq> []"
  shows "\<exists>wn. pollLoop n E interval (exp, w) = (Polling, exp, wn) \<and> db wn = db w
              \<and> sleepCount interval wn = sleepCount interval w + n"
proof (induction n arbitrary: w)
  case 0
  then show ?case by simp
next
  case (Suc n)
  let ?q = "queryJobStatus E (Remote exp) (JobID exp) w"
  let ?w1 = "sleep interval (snd ?q)"
  from assms(1) obtain m where
    m: "p_err (run_process E (processCount w) (squeueArgv (Remote exp) (JobID exp))) = Some m"
    by (metis option.exhaust)
  have q: "?q = (Inl (SqueueFailed m (TrimSpace (combinedOutput
                 (run_process E (processCount w) (squeueArgv (Remote exp) (JobID exp)))))),
                 w\<lparr>trace := trace w @ [Exec (squeueArgv (Remote exp) (JobID exp)) []]\<rparr>)"
    using assms(2) m by (simp add: queryJobStatus_def runSqueue_result)
  then have it: "pollIteration E interval (exp, w) = Continue (exp, ?w1)"
    by (intro poll_query_failed) simp
  from Suc.IH[of ?w1] obtain wn where
    wn: "pollLoop n E interval (exp, ?w1) = (Polling, exp, wn)" "db wn = db ?w1"
        "sleepCount interval wn = sleepCount interval ?w1 + n"
    by blast
  have "db ?w1 = db w" by (simp add: q sleep_def)
  moreover have "sleepCount interval ?w1 = Suc (sleepCount interval w)"
    by (simp add: q sleep_def sleepCount_def)
  ultimately show ?case using wn it by simp
qed


lemma quietly_refl: "quietlyExtends w w"
proof -
  have "w = w\<lparr>trace := trace w @ []\<rparr> \<and> filter isDbExec [] = []" by simp
  then show ?thesis unfolding quietlyExtends_def by blast
qed

lemma quietly_trans:
  assumes "quietlyExtends w w1" and "quietlyExtends w1 w2"
  shows "quietlyExtends w w2"
proof -
  from assms(1) obtain e1 where a: "w1 = w\<lparr>trace := trace w @ e1\<rparr>" "filter isDbExec e1 = []"
    unfolding quietlyExtends_def by blast
  from assms(2) obtain e2 where b: "w2 = w1\<lparr>trace := trace w1 @ e2\<rparr>" "filter isDbExec e2 = []"
    unfolding quietlyExtends_def by blast
  have "w2 = w\<lparr>trace := trace w @ (e1 @ e2)\<rparr> \<and> filter isDbExec (e1 @ e2) = []"
    using a b by simp
  then show ?thesis unfolding quietlyExtends_def by blast
qed

lemma quietly_events:
  assumes "filter isDbExec evs = []"
  shows "quietlyExtends w (w\<lparr>trace := trace w @ evs\<rparr>)"
  unfolding quietlyExtends_def using assms by blast

lemma quietly_sleep: "quietlyExtends w (sleep d w)"
  unfolding sleep_def by (rule quietly_events) simp

lemma quietly_db: "quietlyExtends w w1 \<Longrightarrow> db w1 = db w"
  unfolding quietlyExtends_def by auto

lemma quietly_status_writes:
  assumes "quietlyExtends w w1"
  shows "filter isStatusWrite (trace w1) = filter isStatusWrite (trace w)"
proof -
  from assms obtain evs where a: "w1 = w\<lparr>trace := trace w @ evs\<rparr>" "filter isDbExec evs = []"
    unfolding quietlyExtends_def by blast
  have "\<forall>e \<in> set evs. \<not> isStatusWrite e"
  proof
    fix e assume "e \<in> set evs"
    with a(2) have "\<not> isDbExec e" by (simp add: filter_empty_conv)
    then show "\<not> isStatusWrite e" by (cases e) simp_all
  qed
  then have "filter isStatusWrite evs = []" by (simp add: filter_empty_conv)
  with a(1) show ?thesis by simp
qed

lemma quietly_listRemoteFiles:
  "quietlyExtends w (snd (listRemoteFiles E remote root ts w))"
  unfolding listRemoteFiles_eq snd_conv by (rule quietly_events) simp

lemma quietly_retryLoop:
  "quietlyExtends w (snd (retryLoop E remote root ts rs w))"
proof (induction rs arbitrary: w)
  case Nil
  show ?case by (simp add: quietly_refl)
next
  case (Cons r rs)
  let ?w0 = "if r > 0 then sleep (3 * Second) w else w"
  have a: "quietlyExtends w ?w0" by (simp add: quietly_refl quietly_sleep)
  have b: "quietlyExtends ?w0 (snd (listRemoteFiles E remote root ts ?w0))"
    by (rule quietly_listRemoteFiles)
  note ab = quietly_trans[OF a b]
  obtain x w1 where l: "listRemoteFiles E remote root ts ?w0 = (x, w1)"
    by (cases "listRemoteFiles E remote root ts ?w0") auto
  with ab have w1: "quietlyExtends w w1" by simp
  show ?case
  proof (cases x)
    case (Inl err)
    with l w1 show ?thesis by (simp add: Let_def)
  next
    case (Inr files)
    show ?thesis
    proof (cases "files = []")
      case True
      from quietly_trans[OF w1 Cons.IH[of w1]] True Inr l show ?thesis by (simp add: Let_def)
    next
      case False
      with Inr l w1 show ?thesis by (simp add: Let_def)
    qed
  qed
qed

lemma quietly_attemptLoop:
  "quietlyExtends w (snd (attemptLoop E remote root as w))"
proof (induction as arbitrary: w)
  case Nil
  show ?case by (simp add: quietly_refl)
next
  case (Cons ts rest)
  obtain d w1 where r: "retryLoop E remote root ts [0..<6] w = (d, w1)"
    by (cases "retryLoop E remote root ts [0..<6] w") auto
  from quietly_retryLoop[of w E remote root ts "[0..<6]"] r have w1: "quietlyExtends w w1" by simp
  show ?case
  proof (cases d)
    case Exhausted
    from quietly_trans[OF w1 Cons.IH[of w1]] Exhausted r show ?thesis by simp
  next
    case (Found files)
    with r w1 show ?thesis by simp
  next
    case (Aborted err)
    with r w1 show ?thesis by simp
  qed
qed

lemma quietly_discoverFiles:
  "quietlyExtends w (snd (discoverFiles E remote root sinceStart since w))"
proof -
  obtain d w1 where a: "attemptLoop E remote root (attemptsFor sinceStart since) w = (d, w1)"
    by (cases "attemptLoop E remote root (attemptsFor sinceStart since) w") auto
  from quietly_attemptLoop[of w E remote root "attemptsFor sinceStart since"] a
  have "quietlyExtends w w1" by simp
  with a show ?thesis by (cases d) (simp_all add: discoverFiles_def)
qed

lemma quietly_rsyncFiles:
  "quietlyExtends w (snd (rsyncFiles E remote root files dest w))"
proof -
  have a: "\<And>p. quietlyExtends w (w\<lparr>trace := trace w @ [MkdirAll p]\<rparr>)"
    by (rule quietly_events) simp
  have b: "\<And>p argv inp. quietlyExtends w (w\<lparr>trace := trace w @ [MkdirAll p, Exec argv inp]\<rparr>)"
    by (rule quietly_events) simp
  show ?thesis
    by (auto simp: rsyncFiles_def runCommand_def Let_def quietly_refl a b
        split: sum.splits option.splits)
qed

lemma quietly_fetchArtifacts:
  "quietlyExtends w (snd (fetchArtifacts E exp remotePath destDir patterns sinceStart dryRun w))"
proof -
  let ?since = "if sinceStart then CreatedAt exp else zeroTime"
  obtain x w1 where d: "discoverFiles E (Remote exp) remotePath sinceStart ?since w = (x, w1)"
    by (cases "discoverFiles E (Remote exp) remotePath sinceStart ?since w") auto
  from quietly_discoverFiles[of w E "Remote exp" remotePath sinceStart ?since] d
  have w1: "quietlyExtends w w1" by simp
  have r: "\<And>fs dst. quietlyExtends w (snd (rsyncFiles E (Remote exp) remotePath fs dst w1))"
    by (rule quietly_trans[OF w1 quietly_rsyncFiles])
  show ?thesis
    using d w1 r
    by (auto simp: fetchArtifacts_def Let_def quietly_refl split: sum.splits)
qed

lemma quietly_fetchArtifactSources:
  "quietlyExtends w (snd (fetchArtifactSources E exp sources destDir sinceStart dryRun w))"
proof (induction sources arbitrary: w)
  case Nil
  show ?case by (simp add: quietly_refl)
next
  case (Cons src rest)
  let ?f = "fetchArtifacts E exp (Path src) destDir (ensurePatterns (Patterns src)) sinceStart dryRun w"
  obtain r w1 where f: "?f = (r, w1)" by (cases ?f) auto
  from quietly_fetchArtifacts[of w E exp "Path src" destDir "ensurePatterns (Patterns src)" sinceStart dryRun] f
  have w1: "quietlyExtends w w1" by simp
  show ?case
  proof (cases r)
    case None
    from quietly_trans[OF w1 Cons.IH[of w1]] None f show ?thesis by (simp add: quietly_refl)
  next
    case (Some err)
    with f w1 show ?thesis by (simp add: quietly_refl)
  qed
qed


lemma sync_keeps_status:
  "filter isStatusWrite (trace (snd (recordArtifactSync E i t m w))) = filter isStatusWrite (trace w)
   \<and> (\<forall>j. map_option job_status (db (snd (recordArtifactSync E i t m w)) j)
             = map_option job_status (db w j)
          \<and> map_option completed_at (db (snd (recordArtifactSync E i t m w)) j)
             = map_option completed_at (db w j))"
  by (auto simp: recordArtifactSync_def dbExec_def split: option.splits)

lemma after_completion_keeps_status:
  assumes "fetchAfterCompletion E (exp, w) = (r, expf, wz)"
  shows "JobStatus expf = JobStatus exp \<and> CompletedAt expf = CompletedAt exp
     \<and> filter isStatusWrite (trace wz) = filter isStatusWrite (trace w)
     \<and> (\<forall>j. map_option job_status (db wz j) = map_option job_status (db w j)
            \<and> map_option completed_at (db wz j) = map_option completed_at (db w j))"
proof (cases "length (EffectiveArtifactSources (Some exp)) > 0 \<and> ArtifactDest exp \<noteq> []")
  case False
  with assms have "expf = exp" "wz = w" by (auto simp: fetchAfterCompletion_def Let_def)
  then show ?thesis by simp
next
  case True
  let ?w0 = "sleep artifactSettleDelay w"
  let ?f = "fetchArtifactSources E exp (EffectiveArtifactSources (Some exp)) (ArtifactDest exp)
              (ArtifactSinceStart exp) False ?w0"
  obtain x w1 where f: "?f = (x, w1)" by (cases ?f) auto
  from quietly_fetchArtifactSources[of ?w0 E exp "EffectiveArtifactSources (Some exp)"
        "ArtifactDest exp" "ArtifactSinceStart exp" False] f
  have "quietlyExtends ?w0 w1" by simp
  with quietly_sleep[of w artifactSettleDelay] have q: "quietlyExtends w w1"
    by (rule quietly_trans)
  note k1 = quietly_db[OF q] quietly_status_writes[OF q]
  show ?thesis
  proof (cases x)
    case (Some err)
    let ?s = "recordArtifactSync E (ID exp) None (error_text E err) w1"
    obtain y w2 where s: "?s = (y, w2)" by (cases ?s) auto
    from assms True f Some s have e: "expf = exp" "wz = w2"
      by (auto simp: fetchAfterCompletion_def Let_def split: option.splits)
    from sync_keeps_status[of E "ID exp" None "error_text E err" w1] s k1 e
    show ?thesis by simp
  next
    case None
    let ?t = "UTC (now E w1)"
    let ?s = "recordArtifactSync E (ID exp) (Some ?t) [] w1"
    obtain y w2 where s: "?s = (y, w2)" by (cases ?s) auto
    from assms True f None s have e: "expf = exp\<lparr>ArtifactLastSync := ?t\<rparr>" "wz = w2"
      by (auto simp: fetchAfterCompletion_def Let_def split: option.splits)
    from sync_keeps_status[of E "ID exp" "Some ?t" "[]" w1] s k1 e
    show ?thesis by simp
  qed
qed


lemma poll_part_failed:
  assumes "fst (queryJobStatus E (Remote exp) (JobID exp) w) = Inl err"
  shows "pollIteration E interval (exp, w)
           = Continue (exp, sleep interval (snd (queryJobStatus E (Remote exp) (JobID exp) w)))
     \<and> db (snd (stepState (pollIteration E interval (exp, w)))) = db w
     \<and> JobStatus (fst (stepState (pollIteration E interval (exp, w)))) = JobStatus exp"
  using poll_query_failed[OF assms, of interval] query_keeps_db[of E "Remote exp" "JobID exp" w]
  by (simp add: sleep_def)

lemma poll_part_forever:
  assumes "\<forall>n. p_err (run_process E n (squeueArgv (Remote exp) (JobID exp))) \<noteq> None"
    and "JobID exp \<noteq> []"
  shows "monitorExperiment n E exp interval w = None
     \<and> (\<exists>wn. pollLoop n E interval (exp, w) = (Polling, exp, wn) \<and> db wn = db w
              \<and> sleepCount interval wn = sleepCount interval w + n)"
proof -
  from unreachable_forever[OF assms, of n interval w] obtain wn where
    a: "pollLoop n E interval (exp, w) = (Polling, exp, wn)" "db wn = db w"
       "sleepCount interval wn = sleepCount interval w + n"
    by blast
  then have "monitorExperiment n E exp interval w = None"
    by (simp add: monitorExperiment_def)
  with a show ?thesis by blast
qed

lemma poll_part_persisted:
  assumes "fst (queryJobStatus E (Remote exp) (JobID exp) w) = Inr status"
  shows "(\<exists>rest. trace (snd (stepState (pollIteration E interval (exp, w))))
             = trace (snd (queryJobStatus E (Remote exp) (JobID exp) w))
               @ DbExec (SetStatus (ID exp) status) # rest)
     \<and> (db_failure E (statementCount w) = None \<longrightarrow>
           JobStatus (fst (stepState (pollIteration E interval (exp, w)))) = status
           \<and> (\<forall>row. db w (ID exp) = Some row \<longrightarrow>
                 (\<exists>row1. db (snd (stepState (pollIteration E interval (exp, w)))) (ID exp) = Some row1
                         \<and> job_status row1 = status)))"
proof -
  obtain wq where q: "queryJobStatus E (Remote exp) (JobID exp) w = (Inr status, wq)"
    using assms by (cases "queryJobStatus E (Remote exp) (JobID exp) w") auto
  show ?thesis
  proof (cases "db_failure E (statementCount w)")
    case (Some m)
    from poll_first_write_failed[OF q Some, of interval] q Some show ?thesis by simp
  next
    case None
    show ?thesis
    proof (cases "isActiveStatus status")
      case True
      from poll_active[OF q None True, of interval] q None show ?thesis by simp
    next
      case False
      from poll_terminal[OF q None False, of interval] q None show ?thesis
        by (cases "db_failure E (Suc (statementCount w))") (simp_all add: Let_def)
    qed
  qed
qed

lemma poll_part_active:
  assumes "fst (queryJobStatus E (Remote exp) (JobID exp) w) = Inr status"
    and "isActiveStatus status" and "db_failure E (statementCount w) = None"
  shows "pollIteration E interval (exp, w)
           = Continue (fst (stepState (pollIteration E interval (exp, w))),
                       snd (stepState (pollIteration E interval (exp, w))))
     \<and> trace (snd (stepState (pollIteration E interval (exp, w))))
           = trace (snd (queryJobStatus E (Remote exp) (JobID exp) w))
             @ [DbExec (SetStatus (ID exp) status), Sleep interval]"
proof -
  obtain wq where q: "queryJobStatus E (Remote exp) (JobID exp) w = (Inr status, wq)"
    using assms(1) by (cases "queryJobStatus E (Remote exp) (JobID exp) w") auto
  from poll_active[OF q assms(3) assms(2), of interval] q show ?thesis by simp
qed

lemma poll_part_terminal:
  assumes "fst (queryJobStatus E (Remote exp) (JobID exp) w) = Inr status"
    and "\<not> isActiveStatus status" and "db_failure E (statementCount w) = None"
    and "db_failure E (Suc (statementCount w)) = None"
  shows "pollIteration E interval (exp, w)
           = Break (fst (stepState (pollIteration E interval (exp, w))),
                    snd (stepState (pollIteration E interval (exp, w))))
     \<and> trace (snd (stepState (pollIteration E interval (exp, w))))
           = trace (snd (queryJobStatus E (Remote exp) (JobID exp) w))
             @ [DbExec (SetStatus (ID exp) status),
                DbExec (SetStatusCompleted (ID exp) status
                          (CompletedAt (fst (stepState (pollIteration E interval (exp, w))))))]
     \<and> JobStatus (fst (stepState (pollIteration E interval (exp, w)))) = status
     \<and> (\<forall>row. db w (ID exp) = Some row \<longrightarrow>
           db (snd (stepState (pollIteration E interval (exp, w)))) (ID exp)
             = Some (row\<lparr>job_status := status,
                           completed_at := Some (CompletedAt (fst (stepState (pollIteration E interval (exp, w)))))\<rparr>))"
proof -
  obtain wq where q: "queryJobStatus E (Remote exp) (JobID exp) w = (Inr status, wq)"
    using assms(1) by (cases "queryJobStatus E (Remote exp) (JobID exp) w") auto
  from poll_terminal[OF q assms(3) assms(2), of interval] q assms(4) show ?thesis
    by (simp add: Let_def)
qed

lemma poll_part_left:
  assumes "pollIteration E interval (exp, w) = Break (exp1, w1)"
  shows "pollLoop (Suc n) E interval (exp, w) = (Left, exp1, w1)
     \<and> (\<exists>r expz wz. monitorExperiment (Suc n) E exp interval w = Some (r, expz, wz)
            \<and> JobStatus expz = JobStatus exp1 \<and> CompletedAt expz = CompletedAt exp1
            \<and> filter isStatusWrite (trace wz) = filter isStatusWrite (trace w1)
            \<and> (\<forall>j. map_option job_status (db wz j) = map_option job_status (db w1 j)
                   \<and> map_option completed_at (db wz j) = map_option completed_at (db w1 j)))"
proof -
  from assms have l: "pollLoop (Suc n) E interval (exp, w) = (Left, exp1, w1)" by simp
  obtain r expz wz where f: "fetchAfterCompletion E (exp1, w1) = (r, expz, wz)"
    by (cases "fetchAfterCompletion E (exp1, w1)") auto
  from l f have m: "monitorExperiment (Suc n) E exp interval w = Some (r, expz, wz)"
    by (simp add: monitorExperiment_def)
  from after_completion_keeps_status[OF f] l m show ?thesis by blast
qed


lemma running_query:
  "queryJobStatus runningEnv ''user@host'' ''42'' startWorld =
     (Inr ''RUNNING'', startWorld\<lparr>trace := [Exec (squeueArgv ''user@host'' ''42'') []]\<rparr>)"
  by (simp add: runningEnv_def lookup_eval)

lemma running_active: "isActiveStatus ''RUNNING''"
  by (simp add: isActiveStatus_def TrimSpace_def isSpace_def ToUpper_def toUpperByte_Char)

lemma unreachable_query:
  "queryJobStatus unreachableEnv ''user@host'' ''42'' startWorld =
     (Inl (SqueueFailed ''exit status 255'' []),
      startWorld\<lparr>trace := [Exec (squeueArgv ''user@host'' ''42'') []]\<rparr>)"
  by (simp add: unreachableEnv_def lookup_eval)

lemma accounting_query:
  "queryJobStatus accountingEnv ''user@host'' ''42'' startWorld =
     (Inr ''CANCELLED'',
      startWorld\<lparr>trace := [Exec (squeueArgv ''user@host'' ''42'') [],
                              Exec (sacctArgv ''user@host'' ''42'') []]\<rparr>)"
  by (simp add: accountingEnv_def lookup_eval)

lemma cancelled_terminal: "\<not> isActiveStatus ''CANCELLED''"
  by (simp add: isActiveStatus_def TrimSpace_def isSpace_def ToUpper_def toUpperByte_Char)

text \<open>
  Claim C2. Take one pass through the body of the loop, from any state. With \<open>q\<close> the result
  of the status query of that pass:
  \<^item> when the query fails, the pass sleeps for the interval and continues, and neither the
    stored row nor the status in memory has changed; when the queue command fails every
    time, the loop is still polling after any number of passes, with the database as it was
    and one sleep for each pass, and the function has not returned;
  \<^item> when the query answers a status, the statement that stores it is the first event after
    the commands of the query, and once that statement succeeds the stored status and the
    status in memory are the new status;
  \<^item> when the status is active and the statement succeeds, the pass sleeps for the
    interval and continues;
  \<^item> when the status is terminal and both statements succeed, the pass stores the status
    with the completion time and leaves the loop: the loop has ended after this pass
    whatever the number of passes allowed, the function returns, and what it does after the
    loop writes no job status and leaves the stored status and completion time as they are.
  The statements are those of the store; when one of them fails, the function returns its
  error.
\<close>

theorem C2_polling_loop:
  "(let q = queryJobStatus E (Remote exp) (JobID exp) w;
        wq = snd q;
        it = pollIteration E interval (exp, w);
        exp1 = fst (stepState it);
        w1 = snd (stepState it);
        k = statementCount w
    in (\<forall>err. fst q = Inl err \<longrightarrow>
           it = Continue (exp, sleep interval wq) \<and> db w1 = db w
           \<and> JobStatus exp1 = JobStatus exp)
     \<and> ((\<forall>n. p_err (run_process E n (squeueArgv (Remote exp) (JobID exp))) \<noteq> None)
          \<and> JobID exp \<noteq> [] \<longrightarrow>
           (\<forall>n. monitorExperiment n E exp interval w = None
                \<and> (\<exists>wn. pollLoop n E interval (exp, w) = (Polling, exp, wn) \<and> db wn = db w
                         \<and> sleepCount interval wn = sleepCount interval w + n)))
     \<and> (\<forall>status. fst q = Inr status \<longrightarrow>
           (\<exists>rest. trace w1 = trace wq @ DbExec (SetStatus (ID exp) status) # rest)
           \<and> (db_failure E k = None \<longrightarrow>
                 JobStatus exp1 = status
                 \<and> (\<forall>row. db w (ID exp) = Some row \<longrightarrow>
                       (\<exists>row1. db w1 (ID exp) = Some row1 \<and> job_status row1 = status))))
     \<and> (\<forall>status. fst q = Inr status \<and> isActiveStatus status \<and> db_failure E k = None \<longrightarrow>
           it = Continue (exp1, w1)
           \<and> trace w1 = trace wq @ [DbExec (SetStatus (ID exp) status), Sleep interval])
     \<and> (\<forall>status. fst q = Inr status \<and> \<not> isActiveStatus status
                  \<and> db_failure E k = None \<and> db_failure E (Suc k) = None \<longrightarrow>
           it = Break (exp1, w1)
           \<and> trace w1 = trace wq @ [DbExec (SetStatus (ID exp) status),
                                     DbExec (SetStatusCompleted (ID exp) status (CompletedAt exp1))]
           \<and> (\<forall>row. db w (ID exp) = Some row \<longrightarrow>
                 db w1 (ID exp)
                   = Some (row\<lparr>job_status := status, completed_at := Some (CompletedAt exp1)\<rparr>))
           \<and> (\<forall>n. pollLoop (Suc n) E interval (exp, w) = (Left, exp1, w1)
                  \<and> (\<exists>r expz wz.
                        monitorExperiment (Suc n) E exp interval w = Some (r, expz, wz)
                        \<and> JobStatus expz = status \<and> CompletedAt expz = CompletedAt exp1
                        \<and> filter isStatusWrite (trace wz) = filter isStatusWrite (trace w1)
                        \<and> (\<forall>j. map_option job_status (db wz j) = map_option job_status (db w1 j)
                               \<and> map_option completed_at (db wz j)
                                   = map_option completed_at (db w1 j))))))"
proof -
  let ?q = "queryJobStatus E (Remote exp) (JobID exp) w"
  let ?it = "pollIteration E interval (exp, w)"
  let ?exp1 = "fst (stepState ?it)"
  let ?w1 = "snd (stepState ?it)"
  have a: "\<forall>err. fst ?q = Inl err \<longrightarrow>
           ?it = Continue (exp, sleep interval (snd ?q)) \<and> db ?w1 = db w
           \<and> JobStatus ?exp1 = JobStatus exp"
    using poll_part_failed[of E exp w _ interval] by blast
  have b: "(\<forall>n. p_err (run_process E n (squeueArgv (Remote exp) (JobID exp))) \<noteq> None)
          \<and> JobID exp \<noteq> [] \<longrightarrow>
           (\<forall>n. monitorExperiment n E exp interval w = None
                \<and> (\<exists>wn. pollLoop n E interval (exp, w) = (Polling, exp, wn) \<and> db wn = db w
                         \<and> sleepCount interval wn = sleepCount interval w + n))"
    using poll_part_forever[of E exp _ interval w] by blast
  have c: "\<forall>status. fst ?q = Inr status \<longrightarrow>
           (\<exists>rest. trace ?w1 = trace (snd ?q) @ DbExec (SetStatus (ID exp) status) # rest)
           \<and> (db_failure E (statementCount w) = None \<longrightarrow>
                 JobStatus ?exp1 = status
                 \<and> (\<forall>row. db w (ID exp) = Some row \<longrightarrow>
                       (\<exists>row1. db ?w1 (ID exp) = Some row1 \<and> job_status row1 = status)))"
    using poll_part_persisted[of E exp w _ interval] by blast
  have d: "\<forall>status. fst ?q = Inr status \<and> isActiveStatus status
              \<and> db_failure E (statementCount w) = None \<longrightarrow>
           ?it = Continue (?exp1, ?w1)
           \<and> trace ?w1 = trace (snd ?q) @ [DbExec (SetStatus (ID exp) status), Sleep interval]"
    using poll_part_active[of E exp w _ interval] by blast
  have e: "\<forall>status. fst ?q = Inr status \<and> \<not> isActiveStatus status
                  \<and> db_failure E (statementCount w) = None
                  \<and> db_failure E (Suc (statementCount w)) = None \<longrightarrow>
           ?it = Break (?exp1, ?w1)
           \<and> trace ?w1 = trace (snd ?q) @ [DbExec (SetStatus (ID exp) status),
                                     DbExec (SetStatusCompleted (ID exp) status (CompletedAt ?exp1))]
           \<and> (\<forall>row. db w (ID exp) = Some row \<longrightarrow>
                 db ?w1 (ID exp)
                   = Some (row\<lparr>job_status := status, completed_at := Some (CompletedAt ?exp1)\<rparr>))
           \<and> (\<forall>n. pollLoop (Suc n) E interval (exp, w) = (Left, ?exp1, ?w1)
                  \<and> (\<exists>r expz wz.
                        monitorExperiment (Suc n) E exp interval w = Some (r, expz, wz)
                        \<and> JobStatus expz = status \<and> CompletedAt expz = CompletedAt ?exp1
                        \<and> filter isStatusWrite (trace wz) = filter isStatusWrite (trace ?w1)
                        \<and> (\<forall>j. map_option job_status (db wz j) = map_option job_status (db ?w1 j)
                               \<and> map_option completed_at (db wz j)
                                   = map_option completed_at (db ?w1 j))))"
  proof (intro allI impI)
    fix status
    assume h: "fst ?q = Inr status \<and> \<not> isActiveStatus status
                  \<and> db_failure E (statementCount w) = None
                  \<and> db_failure E (Suc (statementCount w)) = None"
    then have h1: "fst ?q = Inr status" and h2: "\<not> isActiveStatus status"
      and h3: "db_failure E (statementCount w) = None"
      and h4: "db_failure E (Suc (statementCount w)) = None" by blast+
    note t = poll_part_terminal[OF h1 h2 h3 h4, of interval]
    from t have br: "?it = Break (?exp1, ?w1)" by blast
    from t have js: "JobStatus ?exp1 = status" by blast
    have l: "\<forall>n. pollLoop (Suc n) E interval (exp, w) = (Left, ?exp1, ?w1)
                  \<and> (\<exists>r expz wz.
                        monitorExperiment (Suc n) E exp interval w = Some (r, expz, wz)
                        \<and> JobStatus expz = status \<and> CompletedAt expz = CompletedAt ?exp1
                        \<and> filter isStatusWrite (trace wz) = filter isStatusWrite (trace ?w1)
                        \<and> (\<forall>j. map_option job_status (db wz j) = map_option job_status (db ?w1 j)
                               \<and> map_option completed_at (db wz j)
                                   = map_option completed_at (db ?w1 j)))"
    proof
      fix n
      from poll_part_left[OF br, of n] js
      show "pollLoop (Suc n) E interval (exp, w) = (Left, ?exp1, ?w1)
                  \<and> (\<exists>r expz wz.
                        monitorExperiment (Suc n) E exp interval w = Some (r, expz, wz)
                        \<and> JobStatus expz = status \<and> CompletedAt expz = CompletedAt ?exp1
                        \<and> filter isStatusWrite (trace wz) = filter isStatusWrite (trace ?w1)
                        \<and> (\<forall>j. map_option job_status (db wz j) = map_option job_status (db ?w1 j)
                               \<and> map_option completed_at (db wz j)
                                   = map_option completed_at (db ?w1 j)))"
        by simp
    qed
    from t l show "?it = Break (?exp1, ?w1)
           \<and> trace ?w1 = trace (snd ?q) @ [DbExec (SetStatus (ID exp) status),
                                     DbExec (SetStatusCompleted (ID exp) status (CompletedAt ?exp1))]
           \<and> (\<forall>row. db w (ID exp) = Some row \<longrightarrow>
                 db ?w1 (ID exp)
                   = Some (row\<lparr>job_status := status, completed_at := Some (CompletedAt ?exp1)\<rparr>))
           \<and> (\<forall>n. pollLoop (Suc n) E interval (exp, w) = (Left, ?exp1, ?w1)
                  \<and> (\<exists>r expz wz.
                        monitorExperiment (Suc n) E exp interval w = Some (r, expz, wz)
                        \<and> JobStatus expz = status \<and> CompletedAt expz = CompletedAt ?exp1
                        \<and> filter isStatusWrite (trace wz) = filter isStatusWrite (trace ?w1)
                        \<and> (\<forall>j. map_option job_status (db wz j) = map_option job_status (db ?w1 j)
                               \<and> map_option completed_at (db wz j)
                                   = map_option completed_at (db ?w1 j))))"
      by blast
  qed
  from a b c d e show ?thesis unfolding Let_def by (intro conjI)
qed


text \<open>
  A host that cannot be reached keeps the function polling: a pass sleeps and continues. A
  job that has left the queue and that the accounting reports as cancelled ends the loop in
  its first pass, with the status and the completion time stored. A job that the queue
  reports as running has its status stored, and the pass sleeps and continues.
\<close>

theorem C2_polling_loop_witness:
  "monitorExperiment 7 unreachableEnv exampleExp defaultPollInterval startWorld = None
   \<and> fst (queryJobStatus accountingEnv (Remote exampleExp) (JobID exampleExp) startWorld)
       = Inr ''CANCELLED''
   \<and> \<not> isActiveStatus ''CANCELLED''
   \<and> db (snd (snd (pollLoop 1 accountingEnv defaultPollInterval (exampleExp, startWorld)))) 1
       = Some (emptyRow\<lparr>job_status := ''CANCELLED'',
                          completed_at := Some 1700000003000000000\<rparr>)
   \<and> fst (pollLoop 1 accountingEnv defaultPollInterval (exampleExp, startWorld)) = Left
   \<and> fst (pollLoop 9 accountingEnv defaultPollInterval (exampleExp, startWorld)) = Left
   \<and> pollIteration unreachableEnv defaultPollInterval (exampleExp, startWorld)
       = Continue (exampleExp,
                   startWorld\<lparr>trace := [Exec (squeueArgv ''user@host'' ''42'') [],
                                           Sleep defaultPollInterval]\<rparr>)
   \<and> isActiveStatus ''RUNNING''
   \<and> trace (snd (stepState (pollIteration runningEnv defaultPollInterval (exampleExp, startWorld))))
       = [Exec (squeueArgv ''user@host'' ''42'') [], DbExec (SetStatus 1 ''RUNNING''),
          Sleep defaultPollInterval]
   \<and> JobStatus (fst (stepState (pollIteration runningEnv defaultPollInterval (exampleExp, startWorld))))
       = ''RUNNING''"
proof -
  let ?q = "queryJobStatus accountingEnv (Remote exampleExp) (JobID exampleExp) startWorld"
  let ?it = "pollIteration accountingEnv defaultPollInterval (exampleExp, startWorld)"
  have r: "Remote exampleExp = ''user@host''" "JobID exampleExp = ''42''" "ID exampleExp = 1"
    by (simp_all add: exampleExp_def)
  have u: "\<forall>n. p_err (run_process unreachableEnv n
              (squeueArgv (Remote exampleExp) (JobID exampleExp))) \<noteq> None"
    by (simp add: unreachableEnv_def exampleEnv_def exited_def)
  have j: "JobID exampleExp \<noteq> []" by (simp add: r)
  note th1 = C2_polling_loop[of unreachableEnv exampleExp startWorld defaultPollInterval, unfolded Let_def]
  from th1 u j have a: "monitorExperiment 7 unreachableEnv exampleExp defaultPollInterval startWorld = None"
    by blast
  have q: "?q = (Inr ''CANCELLED'',
      startWorld\<lparr>trace := [Exec (squeueArgv ''user@host'' ''42'') [],
                              Exec (sacctArgv ''user@host'' ''42'') []]\<rparr>)"
    by (simp only: r accounting_query)
  then have fq: "fst ?q = Inr ''CANCELLED''" by simp
  have sc: "statementCount startWorld = 0" by (simp add: statementCount_def startWorld_def)
  have d0: "db_failure accountingEnv (statementCount startWorld) = None"
    by (simp add: accountingEnv_def exampleEnv_def)
  have d1: "db_failure accountingEnv (Suc (statementCount startWorld)) = None"
    by (simp add: accountingEnv_def exampleEnv_def)
  have row: "db startWorld (ID exampleExp) = Some emptyRow" by (simp add: r startWorld_def)
  from poll_terminal[OF q d0 cancelled_terminal, of defaultPollInterval] d1
  have "CompletedAt (fst (stepState ?it))
          = UTC (time_now accountingEnv (Suc (length (trace (snd ?q)))))"
    by (simp add: Let_def q)
  moreover have "length (trace (snd ?q)) = 2" by (simp add: q)
  ultimately have "CompletedAt (fst (stepState ?it)) = UTC (time_now accountingEnv (Suc 2))"
    by (simp only:)
  then have ca: "CompletedAt (fst (stepState ?it)) = 1700000003000000000"
    by (simp add: UTC_def accountingEnv_def exampleEnv_def)
  note th2 = C2_polling_loop[of accountingEnv exampleExp startWorld defaultPollInterval, unfolded Let_def]
  from th2 fq cancelled_terminal d0 d1 row have
    dbr: "db (snd (stepState ?it)) (ID exampleExp)
         = Some (emptyRow\<lparr>job_status := ''CANCELLED'',
                            completed_at := Some (CompletedAt (fst (stepState ?it)))\<rparr>)"
    by blast
  from th2 fq cancelled_terminal d0 d1 have
    l: "\<forall>n. pollLoop (Suc n) accountingEnv defaultPollInterval (exampleExp, startWorld)
           = (Left, fst (stepState ?it), snd (stepState ?it))"
    by blast
  have l1: "pollLoop 1 accountingEnv defaultPollInterval (exampleExp, startWorld)
           = (Left, fst (stepState ?it), snd (stepState ?it))"
    using l[rule_format, of 0] by simp
  have l9: "pollLoop 9 accountingEnv defaultPollInterval (exampleExp, startWorld)
           = (Left, fst (stepState ?it), snd (stepState ?it))"
    using l[rule_format, of 8] by (simp add: eval_nat_numeral)
  from dbr have b: "db (snd (snd (pollLoop 1 accountingEnv defaultPollInterval (exampleExp, startWorld)))) 1
       = Some (emptyRow\<lparr>job_status := ''CANCELLED'',
                          completed_at := Some 1700000003000000000\<rparr>)"
    by (simp only: l1 ca r snd_conv)
  let ?qx = "queryJobStatus unreachableEnv (Remote exampleExp) (JobID exampleExp) startWorld"
  have qx: "?qx = (Inl (SqueueFailed ''exit status 255'' []),
      startWorld\<lparr>trace := [Exec (squeueArgv ''user@host'' ''42'') []]\<rparr>)"
    by (simp only: r unreachable_query)
  then have fx: "fst ?qx = Inl (SqueueFailed ''exit status 255'' [])" by simp
  note thx = C2_polling_loop[of unreachableEnv exampleExp startWorld defaultPollInterval, unfolded Let_def]
  from thx fx have "pollIteration unreachableEnv defaultPollInterval (exampleExp, startWorld)
       = Continue (exampleExp, sleep defaultPollInterval (snd ?qx))"
    by blast
  then have xa: "pollIteration unreachableEnv defaultPollInterval (exampleExp, startWorld)
     = Continue (exampleExp,
                 startWorld\<lparr>trace := [Exec (squeueArgv ''user@host'' ''42'') [],
                                         Sleep defaultPollInterval]\<rparr>)"
    by (simp add: qx sleep_def)
  let ?qr = "queryJobStatus runningEnv (Remote exampleExp) (JobID exampleExp) startWorld"
  let ?itr = "pollIteration runningEnv defaultPollInterval (exampleExp, startWorld)"
  have qr: "?qr = (Inr ''RUNNING'', startWorld\<lparr>trace := [Exec (squeueArgv ''user@host'' ''42'') []]\<rparr>)"
    by (simp only: r running_query)
  then have fr: "fst ?qr = Inr ''RUNNING''" by simp
  have d0: "db_failure runningEnv (statementCount startWorld) = None"
    by (simp add: runningEnv_def exampleEnv_def)
  note th3 = C2_polling_loop[of runningEnv exampleExp startWorld defaultPollInterval, unfolded Let_def]
  from th3 fr running_active d0 have
    "trace (snd (stepState ?itr))
       = trace (snd ?qr) @ [DbExec (SetStatus (ID exampleExp) ''RUNNING''), Sleep defaultPollInterval]"
    by blast
  then have xb: "trace (snd (stepState ?itr))
       = [Exec (squeueArgv ''user@host'' ''42'') [], DbExec (SetStatus 1 ''RUNNING''),
          Sleep defaultPollInterval]"
    by (simp add: r running_query)
  from th3 fr d0 have xc: "JobStatus (fst (stepState ?itr)) = ''RUNNING''" by blast
  from a fq cancelled_terminal b l1 l9 xa running_active xb xc show ?thesis by simp
qed

end
